theory Spec2Isabelle
  imports Complex_Main "HOL-Library.Sublist"
begin

section \<open>Texts and characters\<close>

text \<open>
  The agent is Python; its texts are \<open>str\<close> values. A text is modelled as a
  \<^typ>\<open>string\<close>, one \<^typ>\<open>char\<close> per Python character, so that \<^const>\<open>length\<close>
  is Python's \<open>len\<close>, \<^const>\<open>take\<close> is the slice \<open>text[:n]\<close> and \<open>@\<close> is \<open>+\<close>. The
  characters of the model are the code points 0 to 255.
\<close>


definition code_point :: "char \<Rightarrow> nat" where
  "code_point c = of_char c"

text \<open>
  Python's \<open>str.isspace\<close>, which is also the class \<open>\s\<close> of \<open>re\<close> on a \<open>str\<close> pattern
  and the separator set of \<open>str.split()\<close> and \<open>str.strip()\<close>: on the code points below
  256 these are tab, line feed, vertical tab, form feed, carriage return, the separators
  28 to 31, space, next line (133) and no-break space (160).
\<close>

definition is_space :: "char \<Rightarrow> bool" where
  "is_space c = (let n = code_point c in
     (9 \<le> n \<and> n \<le> 13) \<or> (28 \<le> n \<and> n \<le> 32) \<or> n = 133 \<or> n = 160)"

text \<open>
  The characters for which \<open>str.isalnum\<close> holds, below 256: digits, the ASCII letters,
  the superscript digits and fractions, the ordinal indicators, the micro sign and
  the Latin-1 letters. The class \<open>\w\<close> of \<open>re\<close> adds the underscore.
\<close>

definition is_alnum_char :: "char \<Rightarrow> bool" where
  "is_alnum_char c = (let n = code_point c in
     (48 \<le> n \<and> n \<le> 57) \<or> (65 \<le> n \<and> n \<le> 90) \<or> (97 \<le> n \<and> n \<le> 122)
     \<or> n = 170 \<or> n = 178 \<or> n = 179 \<or> n = 181 \<or> n = 185 \<or> n = 186
     \<or> (188 \<le> n \<and> n \<le> 190) \<or> (192 \<le> n \<and> n \<le> 214)
     \<or> (216 \<le> n \<and> n \<le> 246) \<or> 248 \<le> n)"

definition is_word_char :: "char \<Rightarrow> bool" where
  "is_word_char c = (is_alnum_char c \<or> c = CHR ''_'')"

text \<open>\<open>str.isalnum()\<close>: every character is alphanumeric and there is at least one.\<close>

definition isalnum :: "string \<Rightarrow> bool" where
  "isalnum s = (s \<noteq> [] \<and> list_all is_alnum_char s)"

text \<open>
  \<open>str.lower()\<close>: below 256 the upper-case letters are \<open>A\<close> to \<open>Z\<close> and the code points
  192 to 222 without the multiplication sign 215, each 32 below its lower-case letter.
\<close>

definition lower_char :: "char \<Rightarrow> char" where
  "lower_char c = (let n = code_point c in
     if (65 \<le> n \<and> n \<le> 90) \<or> (192 \<le> n \<and> n \<le> 222 \<and> n \<noteq> 215)
     then char_of (n + 32) else c)"

definition lower :: "string \<Rightarrow> string" where
  "lower s = map lower_char s"

text \<open>\<open>str.strip()\<close> removes the white space at both ends.\<close>

definition strip :: "string \<Rightarrow> string" where
  "strip s = rev (dropWhile is_space (rev (dropWhile is_space s)))"

text \<open>
  \<open>str.split()\<close> with no argument: the maximal runs of characters that are not white
  space. \<open>cur\<close> is the run being read.
\<close>

fun split_from :: "string \<Rightarrow> string \<Rightarrow> string list" where
  "split_from cur [] = (if cur = [] then [] else [cur])"
| "split_from cur (c # cs) =
     (if is_space c then (if cur = [] then split_from [] cs else cur # split_from [] cs)
      else split_from (cur @ [c]) cs)"

definition split :: "string \<Rightarrow> string list" where
  "split s = split_from [] s"

text \<open>\<open>sep.join(parts)\<close>.\<close>

fun join :: "string \<Rightarrow> string list \<Rightarrow> string" where
  "join sep [] = []"
| "join sep [x] = x"
| "join sep (x # y # ys) = x @ sep @ join sep (y # ys)"

text \<open>\<open>sub in s\<close> for texts, \<open>s.startswith(p)\<close> and \<open>s.endswith(p)\<close>.\<close>

fun contains :: "string \<Rightarrow> string \<Rightarrow> bool" where
  "contains sub [] = (sub = [])"
| "contains sub (c # cs) = (prefix sub (c # cs) \<or> contains sub cs)"

definition startswith :: "string \<Rightarrow> string \<Rightarrow> bool" where
  "startswith s p = prefix p s"

definition endswith :: "string \<Rightarrow> string \<Rightarrow> bool" where
  "endswith s p = suffix p s"

text \<open>
  \<open>re.sub(r'[^\w\s]', ' ', s)\<close>: every character that is neither a word character nor
  white space becomes a space.
\<close>

definition sub_special :: "string \<Rightarrow> string" where
  "sub_special s = map (\<lambda>c. if is_word_char c \<or> is_space c then c else CHR '' '') s"

text \<open>
  \<open>re.sub(r'\s+', ' ', s)\<close> and \<open>re.sub(r'\n+', ' ', s)\<close>: every maximal run of
  characters of the class becomes one space. The flag says that the previous character
  was of the class.
\<close>

fun collapse_from :: "(char \<Rightarrow> bool) \<Rightarrow> bool \<Rightarrow> string \<Rightarrow> string" where
  "collapse_from cls in_run [] = []"
| "collapse_from cls in_run (c # cs) =
     (if cls c then (if in_run then collapse_from cls True cs
                     else CHR '' '' # collapse_from cls True cs)
      else c # collapse_from cls False cs)"

definition collapse_spaces :: "string \<Rightarrow> string" where
  "collapse_spaces s = collapse_from is_space False s"

definition collapse_newlines :: "string \<Rightarrow> string" where
  "collapse_newlines s = collapse_from (\<lambda>c. c = CHR 0x0A) False s"

text \<open>
  \<open>s.replace(old, "")\<close> for a text \<open>old\<close> that is not empty: the occurrences of \<open>old\<close>
  are removed from left to right.
\<close>

function remove_all :: "string \<Rightarrow> string \<Rightarrow> string" where
  "remove_all old s =
     (if s = [] \<or> old = [] then s
      else if prefix old s then remove_all old (drop (length old) s)
      else hd s # remove_all old (tl s))"
  by pat_completeness auto
termination
  by (relation "measure (\<lambda>(old, s). length s)") auto

declare remove_all.simps [simp del]

text \<open>\<open>str(n)\<close> for a natural number.\<close>

definition digit_char :: "nat \<Rightarrow> char" where
  "digit_char d = char_of (48 + d)"

function str_nat :: "nat \<Rightarrow> string" where
  "str_nat n = (if n < 10 then [digit_char n] else str_nat (n div 10) @ [digit_char (n mod 10)])"
  by pat_completeness auto
termination
  by (relation "measure id") auto

declare str_nat.simps [simp del]

section \<open>Token estimator (\<open>estimate_tokens\<close>, \<open>truncate_content_by_tokens\<close>)\<close>

text \<open>
  \<^verbatim>\<open>
  def estimate_tokens(text: str) -> int:
      if not text:
          return 0
      return len(text) // 4
  \<close>
\<close>

definition estimate_tokens :: "string \<Rightarrow> int" where
  "estimate_tokens text = (if text = [] then 0 else int (length text) div 4)"

definition truncation_marker :: string where
  "truncation_marker = ''... [truncated due to length]''"

text \<open>
  \<^verbatim>\<open>
  def truncate_content_by_tokens(text: str, max_tokens: int) -> str:
      if not text:
          return text
      estimated_tokens = estimate_tokens(text)
      if estimated_tokens <= max_tokens:
          return text
      ratio = (max_tokens * 0.9) / estimated_tokens
      target_length = int(len(text) * ratio)
      if target_length < 100:
          return text[:100] + "... [truncated due to length]"
      return text[:target_length] + "... [truncated due to length]"
  \<close>
  The two lines that compute \<open>target_length\<close> run in binary floating point, and the result
  differs from the exact quotient: where \<open>len(text) * 9 * max_tokens / (10 * estimated_tokens)\<close>
  is a whole number, Python's product can fall just below it and \<open>int\<close> then returns one
  less. The model therefore takes the integer that Python obtains as a function
  \<open>fp len max_tokens estimated_tokens\<close>. \<^term>\<open>exact_target\<close> is that integer in exact
  arithmetic (\<open>int\<close> rounds towards zero), and \<open>float_close fp\<close> says that \<open>fp\<close> is never
  more than one character away from it, which is all that the theorems below need.

  The division raises \<open>ZeroDivisionError\<close> when \<open>estimated_tokens\<close> is 0, which the
  second test lets through for a text of one to three characters and a negative limit.
  A raised exception is the value \<^term>\<open>None\<close>.
\<close>

definition exact_target :: "nat \<Rightarrow> int \<Rightarrow> int \<Rightarrow> int" where
  "exact_target n k e =
     (if 0 \<le> k then (int n * 9 * k) div (10 * e)
      else - ((int n * 9 * (- k)) div (10 * e)))"

definition float_close :: "(nat \<Rightarrow> int \<Rightarrow> int \<Rightarrow> int) \<Rightarrow> bool" where
  "float_close fp = (\<forall>n k e. 0 < e \<longrightarrow> \<bar>fp n k e - exact_target n k e\<bar> \<le> 1)"

definition truncate_content_by_tokens ::
  "(nat \<Rightarrow> int \<Rightarrow> int \<Rightarrow> int) \<Rightarrow> string \<Rightarrow> int \<Rightarrow> string option" where
  "truncate_content_by_tokens fp text max_tokens =
     (if text = [] then Some text
      else
        let estimated_tokens = estimate_tokens text in
        if estimated_tokens \<le> max_tokens then Some text
        else if estimated_tokens = 0 then None
        else
          let target_length = fp (length text) max_tokens estimated_tokens in
          if target_length < 100 then Some (take 100 text @ truncation_marker)
          else Some (take (nat target_length) text @ truncation_marker))"

section \<open>Extractive summarizer (\<open>summarize_text\<close>)\<close>

text \<open>
  The summarizer calls NLTK: \<open>sent_tokenize\<close>, \<open>word_tokenize\<close> and the English
  stop-word list that \<open>__init__\<close> loads. They are not code of the agent and enter the model
  as the fields of \<open>nlp\<close>. A tokenizer that raises returns \<^term>\<open>None\<close>.
\<close>

record nlp =
  sent_tokenize :: "string \<Rightarrow> string list option"
  word_tokenize :: "string \<Rightarrow> string list option"
  stop_words :: "string set"

text \<open>
  \<^verbatim>\<open>
  word_tokens = word_tokenize(text.lower())
  word_tokens = [word for word in word_tokens
                 if word.isalnum() and word not in self.stop_words]
  freq_dist = FreqDist(word_tokens)
  \<close>
  \<open>FreqDist\<close> counts the occurrences: \<open>freq_dist[w]\<close> is \<open>count_list word_tokens w\<close>, and
  \<open>w in freq_dist\<close> holds for the members of \<open>word_tokens\<close>.
\<close>

definition keep_words :: "nlp \<Rightarrow> string list \<Rightarrow> string list" where
  "keep_words nl word_tokens = filter (\<lambda>word. isalnum word \<and> word \<notin> stop_words nl) word_tokens"

text \<open>
  \<^verbatim>\<open>
  sentence_scores = {}
  for i, sentence in enumerate(sentences):
      for word in word_tokenize(sentence.lower()):
          if word in freq_dist:
              if i not in sentence_scores:
                  sentence_scores[i] = freq_dist[word]
              else:
                  sentence_scores[i] += freq_dist[word]
  \<close>
  The dictionary is the list of its items in insertion order, which is the order of the
  sentences. A sentence none of whose words is counted gets no entry.
\<close>

definition sentence_hits :: "string list \<Rightarrow> string list \<Rightarrow> string list" where
  "sentence_hits word_tokens words = filter (\<lambda>word. word \<in> set word_tokens) words"

fun score_sentences ::
  "nlp \<Rightarrow> string list \<Rightarrow> nat \<Rightarrow> string list \<Rightarrow> (nat \<times> nat) list option" where
  "score_sentences nl word_tokens i [] = Some []"
| "score_sentences nl word_tokens i (sentence # rest) =
     (case word_tokenize nl (lower sentence) of
        None \<Rightarrow> None
      | Some words \<Rightarrow>
          (case score_sentences nl word_tokens (Suc i) rest of
             None \<Rightarrow> None
           | Some scores \<Rightarrow>
               (let hits = sentence_hits word_tokens words in
                if hits = [] then Some scores
                else Some ((i, sum_list (map (count_list word_tokens) hits)) # scores))))"

text \<open>
  \<open>heapq.nlargest(n, items, key=lambda x: x[1])\<close> returns what
  \<open>sorted(items, key=key, reverse=True)[:n]\<close> returns: the items by falling score, items
  of equal score in the order they came in.
\<close>

definition nlargest :: "nat \<Rightarrow> (nat \<times> nat) list \<Rightarrow> (nat \<times> nat) list" where
  "nlargest n items = take n (sort_key (\<lambda>x. - int (snd x)) items)"

text \<open>
  The body of the \<open>try\<close> block, \<^term>\<open>None\<close> when a tokenizer raises:
  \<^verbatim>\<open>
  sentences = sent_tokenize(text)
  if len(sentences) <= num_sentences:
      return text
  ...
  if not sentence_scores:
      return ' '.join(sentences[:num_sentences])
  top_sentences = heapq.nlargest(num_sentences, sentence_scores.items(), key=lambda x: x[1])
  top_sentences = sorted(top_sentences, key=lambda x: x[0])
  summary = ' '.join(sentences[i] for i, _ in top_sentences)
  return summary
  \<close>
  \<open>top_indices\<close> are the positions of the sentences that are joined.
\<close>

definition top_indices :: "nat \<Rightarrow> (nat \<times> nat) list \<Rightarrow> nat list" where
  "top_indices num_sentences sentence_scores =
     map fst (sort_key fst (nlargest num_sentences sentence_scores))"

definition summarize_sentences :: "nlp \<Rightarrow> string \<Rightarrow> nat \<Rightarrow> string option" where
  "summarize_sentences nl text num_sentences =
     (case sent_tokenize nl text of
        None \<Rightarrow> None
      | Some sentences \<Rightarrow>
          if length sentences \<le> num_sentences then Some text
          else
            (case word_tokenize nl (lower text) of
               None \<Rightarrow> None
             | Some all_words \<Rightarrow>
                 (case score_sentences nl (keep_words nl all_words) 0 sentences of
                    None \<Rightarrow> None
                  | Some sentence_scores \<Rightarrow>
                      if sentence_scores = []
                      then Some (join '' '' (take num_sentences sentences))
                      else Some (join '' ''
                             (map (\<lambda>i. sentences ! i)
                                (top_indices num_sentences sentence_scores))))))"

text \<open>
  \<^verbatim>\<open>
  def summarize_text(self, text, num_sentences=5):
      if not text or len(text) < 100:
          return text
      try:
          ...
      except Exception as e:
          return text[:500] + "..." if len(text) > 500 else text
  \<close>
  \<open>num_sentences\<close> is a natural number: every caller in the agent leaves it at 5.
\<close>

definition summarize_text :: "nlp \<Rightarrow> string \<Rightarrow> nat \<Rightarrow> string" where
  "summarize_text nl text num_sentences =
     (if text = [] \<or> length text < 100 then text
      else
        (case summarize_sentences nl text num_sentences of
           Some summary \<Rightarrow> summary
         | None \<Rightarrow> if length text > 500 then take 500 text @ ''...'' else text))"

text \<open>
  A sentence enters \<open>sentence_scores\<close> when one of its words is counted in \<open>freq_dist\<close>.
\<close>

definition has_scored_word :: "nlp \<Rightarrow> string list \<Rightarrow> string \<Rightarrow> bool" where
  "has_scored_word nl word_tokens sentence =
     (case word_tokenize nl (lower sentence) of
        None \<Rightarrow> False
      | Some words \<Rightarrow> sentence_hits word_tokens words \<noteq> [])"


text \<open>
  The score that the loop gives a sentence, \<open>sentence_scores[i]\<close>: the sum of
  \<open>freq_dist[word]\<close> over the occurrences of its counted words. \<open>scored_positions\<close> are
  the keys of \<open>sentence_scores\<close>: the positions of the sentences that have a counted word.
\<close>

definition sentence_score :: "nlp \<Rightarrow> string list \<Rightarrow> string \<Rightarrow> nat" where
  "sentence_score nl word_tokens sentence =
     (case word_tokenize nl (lower sentence) of
        None \<Rightarrow> 0
      | Some words \<Rightarrow> sum_list (map (count_list word_tokens) (sentence_hits word_tokens words)))"

definition scored_positions :: "nlp \<Rightarrow> string list \<Rightarrow> string list \<Rightarrow> nat list" where
  "scored_positions nl word_tokens sentences =
     filter (\<lambda>i. has_scored_word nl word_tokens (sentences ! i)) [0..<length sentences]"
section \<open>The collaborators\<close>

text \<open>
  What the agent calls and does not define enters the model as the fields of \<open>env\<close>:
  \<^item> \<open>nlp_of\<close>: the NLTK functions of the summarizer;
  \<^item> \<open>fp_of\<close>: the floating-point computation of \<open>truncate_content_by_tokens\<close>;
  \<^item> \<open>url_q\<close>: \<open>urllib.parse.parse_qs(urllib.parse.urlparse(query).query)\<close> looked up
    at \<open>'q'\<close>, as \<open>clean_query\<close> does;
  \<^item> \<open>fetch\<close>: \<open>get_webpage_content\<close>, the HTTP request, \<^term>\<open>None\<close> when the request fails
    (the method catches every exception and returns \<open>None\<close>);
  \<^item> \<open>soup_text\<close> and \<open>soup_title\<close>: what BeautifulSoup extracts from a page, its text
    without the script, style, header, footer, nav and aside elements, and the text of
    its title element, \<^term>\<open>None\<close> when there is none or the parser raises;
  \<^item> \<open>search\<close>: \<open>get_google_search_results\<close>, which scrapes the result page of a search
    engine into at most five addresses;
  \<^item> \<open>comparison\<close>: \<open>_is_comparison_query\<close>, a classifier by word lists and regular
    expressions: none of the properties below depends on its verdict;
  \<^item> \<open>set_order\<close>: the order in which Python iterates the set \<open>memory_domains\<close>, given as
    its members in insertion order;
  \<^item> \<open>llm\<close>: the call of the provider's client in \<open>generate_llm_response\<close>, from the
    provider, the key, the system prompt and the user prompt to the generated text
    (\<^term>\<open>None\<close> when the call raises or times out) and the seconds that the clock measured
    from the start of \<open>generate_llm_response\<close> to its return.
  Logging (\<open>log_event\<close>) and the delay between two requests (\<open>time.sleep\<close>) change no
  result and are left out.
\<close>

datatype q_lookup = Raises | NoQ | Q string

record env =
  nlp_of :: nlp
  fp_of :: "nat \<Rightarrow> int \<Rightarrow> int \<Rightarrow> int"
  url_q :: "string \<Rightarrow> q_lookup"
  fetch :: "string \<Rightarrow> string option"
  soup_text :: "string \<Rightarrow> string"
  soup_title :: "string \<Rightarrow> string option"
  search :: "string \<Rightarrow> string list"
  comparison :: "string \<Rightarrow> bool"
  set_order :: "string list \<Rightarrow> string list"
  llm :: "string \<Rightarrow> string \<Rightarrow> string \<Rightarrow> string \<Rightarrow> string option \<times> real"

section \<open>Query cleaning and classification (\<open>clean_query\<close>, \<open>is_question\<close>)\<close>

text \<open>
  \<^verbatim>\<open>
  def clean_query(self, query):
      try:
          if '?' in query and ('http://' in query or 'https://' in query):
              parsed_url = urllib.parse.urlparse(query)
              query_params = urllib.parse.parse_qs(parsed_url.query)
              if 'q' in query_params:
                  clean_query = query_params['q'][0]
                  return clean_query
          clean_query = re.sub(r'[^\w\s]', ' ', query)
          clean_query = re.sub(r'\s+', ' ', clean_query).strip()
          if len(clean_query) > 150:
              clean_query = clean_query[:150]
          return clean_query
      except Exception as e:
          return query
  \<close>
  Only the two \<open>urllib\<close> calls can raise on a \<open>str\<close> (\<open>urlparse\<close> raises \<open>ValueError\<close> on
  an address with an unmatched square bracket in its host). \<^term>\<open>Raises\<close> is that case,
  \<^term>\<open>NoQ\<close> a query string without the key \<open>'q'\<close>, and \<open>Q v\<close> the first value of \<open>'q'\<close>.
\<close>

definition looks_like_url :: "string \<Rightarrow> bool" where
  "looks_like_url query =
     (contains ''?'' query \<and> (contains ''http://'' query \<or> contains ''https://'' query))"

definition normalize_query :: "string \<Rightarrow> string" where
  "normalize_query query = strip (collapse_spaces (sub_special query))"

definition clean_query :: "env \<Rightarrow> string \<Rightarrow> string" where
  "clean_query e query =
     (case (if looks_like_url query then url_q e query else NoQ) of
        Raises \<Rightarrow> query
      | Q v \<Rightarrow> v
      | NoQ \<Rightarrow>
          (let clean_query = normalize_query query in
           if length clean_query > 150 then take 150 clean_query else clean_query))"

text \<open>
  \<^verbatim>\<open>
  def is_question(self, query: str) -> bool:
      if query.startswith('http://') or query.startswith('https://'):
          return False
      if 'DIRECT QUESTION:' in query or query.strip().endswith('?'):
          return True
      question_words = ['who', 'what', 'when', 'where', 'why', 'how', 'did', 'do',
                        'does', 'is', 'are', 'was', 'were']
      words = query.lower().split()
      if any(word in question_words for word in words):
          return True
      return False
  \<close>
\<close>

definition question_words :: "string list" where
  "question_words = [''who'', ''what'', ''when'', ''where'', ''why'', ''how'', ''did'', ''do'',
                     ''does'', ''is'', ''are'', ''was'', ''were'']"

definition is_question :: "string \<Rightarrow> bool" where
  "is_question query =
     (if startswith query ''http://'' \<or> startswith query ''https://'' then False
      else if contains ''DIRECT QUESTION:'' query \<or> endswith (strip query) ''?'' then True
      else if list_ex (\<lambda>word. word \<in> set question_words) (split (lower query)) then True
      else False)"

section \<open>Evidence from addresses (\<open>extract_text\<close>, \<open>process_urls\<close>)\<close>

text \<open>
  \<^verbatim>\<open>
  def extract_text(self, html_content):
      if not html_content:
          return ""
      soup = BeautifulSoup(html_content, 'html.parser')
      for element in soup(['script', 'style', 'header', 'footer', 'nav', 'aside']):
          element.decompose()
      text = soup.get_text(separator=' ')
      text = re.sub(r'\s+', ' ', text).strip()
      text = re.sub(r'\n+', ' ', text)
      return text
  \<close>
\<close>

definition extract_text :: "env \<Rightarrow> string \<Rightarrow> string" where
  "extract_text e html_content =
     (if html_content = [] then []
      else collapse_newlines (strip (collapse_spaces (soup_text e html_content))))"

text \<open>
  An evidence item is the dictionary with the keys \<open>title\<close>, \<open>url\<close> and \<open>summary\<close>, and
  with \<open>is_full_content\<close> and \<open>has_html\<close> where the item has them; they are read with
  \<open>source.get(key, False)\<close>, so a missing key is \<^term>\<open>False\<close>. \<open>has_html\<close> is read for its
  truth value only. Every item that the agent builds has the first three keys.
\<close>

record summary_item =
  s_title :: string
  s_url :: string
  s_summary :: string
  s_is_full_content :: bool
  s_has_html :: bool

text \<open>
  \<^verbatim>\<open>
  def process_urls(self, urls, query):
      summaries = []
      for url in urls:
          if len(summaries) >= 3:
              break
          time.sleep(0.5 + random.random())
          page_content = self.get_webpage_content(url)
          if not page_content:
              continue
          text = self.extract_text(page_content)
          if not text or len(text) < 200:
              continue
          summary = self.summarize_text(text)
          if summary:
              title = "Untitled Page"
              try:
                  soup = BeautifulSoup(page_content, 'html.parser')
                  title_tag = soup.find('title')
                  if title_tag:
                      title = title_tag.text.strip()
              except:
                  pass
              summaries.append({'title': title, 'url': url, 'summary': summary})
      return summaries
  \<close>
  The request is the effect of the loop. The model returns, next to the summaries, the
  addresses that were requested, in the order of the requests.
\<close>

definition page_title :: "env \<Rightarrow> string \<Rightarrow> string" where
  "page_title e page_content =
     (case soup_title e page_content of None \<Rightarrow> ''Untitled Page'' | Some t \<Rightarrow> strip t)"

definition url_summary :: "env \<Rightarrow> string \<Rightarrow> summary_item option" where
  "url_summary e url =
     (case fetch e url of
        None \<Rightarrow> None
      | Some page_content \<Rightarrow>
          if page_content = [] then None
          else
            let text = extract_text e page_content in
            if text = [] \<or> length text < 200 then None
            else
              let summary = summarize_text (nlp_of e) text 5 in
              if summary \<noteq> [] then
                Some \<lparr> s_title = page_title e page_content, s_url = url, s_summary = summary,
                       s_is_full_content = False, s_has_html = False \<rparr>
              else None)"

fun process_urls_from ::
  "env \<Rightarrow> string list \<Rightarrow> summary_item list \<Rightarrow> string list
     \<Rightarrow> summary_item list \<times> string list" where
  "process_urls_from e [] summaries requested = (summaries, requested)"
| "process_urls_from e (url # urls) summaries requested =
     (if length summaries \<ge> 3 then (summaries, requested)
      else
        (case url_summary e url of
           None \<Rightarrow> process_urls_from e urls summaries (requested @ [url])
         | Some item \<Rightarrow> process_urls_from e urls (summaries @ [item]) (requested @ [url])))"

definition process_urls_requests ::
  "env \<Rightarrow> string list \<Rightarrow> string \<Rightarrow> summary_item list \<times> string list" where
  "process_urls_requests e urls query = process_urls_from e urls [] []"

definition process_urls :: "env \<Rightarrow> string list \<Rightarrow> string \<Rightarrow> summary_item list" where
  "process_urls e urls query = fst (process_urls_requests e urls query)"

section \<open>The provider call (\<open>generate_llm_response\<close>)\<close>

text \<open>
  \<open>model_info\<close> is a dictionary. Its keys that the agent reads are the fields of the
  record, \<^term>\<open>None\<close> for a key that is absent; \<open>mi_more\<close> says that it has further keys
  (\<open>main\<close> adds \<open>model\<close>). A dictionary counts as true in a condition when it has a key.
\<close>

datatype ctx_content = Body "string option" "string option" | NotADict

record ctx =
  c_title :: "string option"
  c_url :: "string option"
  c_content :: "ctx_content option"

record model_info =
  mi_provider :: "string option"
  mi_api_key :: "string option"
  mi_apiKey :: "string option"
  mi_API_KEY :: "string option"
  mi_api_dash_key :: "string option"
  mi_isQuestion :: "bool option"
  mi_originalQuery :: "string option"
  mi_isAboutLinks :: "bool option"
  mi_additionalContexts :: "ctx list option"
  mi_more :: bool

definition given_model_info :: "model_info option \<Rightarrow> bool" where
  "given_model_info model_info =
     (case model_info of
        None \<Rightarrow> False
      | Some mi \<Rightarrow>
          mi_provider mi \<noteq> None \<or> mi_api_key mi \<noteq> None \<or> mi_apiKey mi \<noteq> None
          \<or> mi_API_KEY mi \<noteq> None \<or> mi_api_dash_key mi \<noteq> None \<or> mi_isQuestion mi \<noteq> None
          \<or> mi_originalQuery mi \<noteq> None \<or> mi_isAboutLinks mi \<noteq> None
          \<or> mi_additionalContexts mi \<noteq> None \<or> mi_more mi)"

text \<open>
  \<^verbatim>\<open>
  api_key = None
  for key_name in ['api_key', 'apiKey', 'API_KEY', 'api-key']:
      if key_name in model_info and model_info[key_name]:
          api_key = model_info[key_name]
          break
  \<close>
\<close>

definition find_api_key :: "model_info \<Rightarrow> string option" where
  "find_api_key mi =
     (case filter (\<lambda>k. k \<noteq> None \<and> k \<noteq> Some [])
             [mi_api_key mi, mi_apiKey mi, mi_API_KEY mi, mi_api_dash_key mi] of
        [] \<Rightarrow> None
      | k # _ \<Rightarrow> k)"

text \<open>
  \<^verbatim>\<open>
  def generate_llm_response(self, prompt_type, input_text, model_info):
      start_time = time.time()
      provider = model_info.get('provider', '').lower()
      ...
      if not api_key:
          return False, None, 0
      try:
          if provider == 'anthropic': ... result = response.content[0].text
          elif provider == 'openai': ...
          elif provider == 'perplexity': ...
          elif provider == 'chutes': ...
          else:
              return False, None, 0
          total_time = time.time() - start_time
          return True, result, total_time
      except Exception as e:
          total_time = time.time() - start_time
          return False, None, total_time
  \<close>
  The result is \<open>(success, text, seconds)\<close>. \<open>prompt_type\<close> is only logged.
\<close>

definition providers :: "string list" where
  "providers = [''anthropic'', ''openai'', ''perplexity'', ''chutes'']"

definition generate_llm_response ::
  "env \<Rightarrow> string \<Rightarrow> string \<Rightarrow> model_info \<Rightarrow> bool \<times> string option \<times> real" where
  "generate_llm_response e system user mi =
     (let provider = lower (case mi_provider mi of None \<Rightarrow> [] | Some p \<Rightarrow> p) in
      case find_api_key mi of
        None \<Rightarrow> (False, None, 0)
      | Some api_key \<Rightarrow>
          if provider \<in> set providers then
            (case llm e provider api_key system user of
               (Some result, total_time) \<Rightarrow> (True, Some result, total_time)
             | (None, total_time) \<Rightarrow> (False, None, total_time))
          else (False, None, 0))"

section \<open>Prompt assembly for questions (\<open>create_question_answer\<close>)\<close>

definition MAX_TOTAL_TOKENS :: int where "MAX_TOTAL_TOKENS = 180000"

definition MAX_MEMORY_TOKENS :: int where "MAX_MEMORY_TOKENS = 20000"

definition MAX_SOURCE_TOKENS :: int where "MAX_SOURCE_TOKENS = 100000"

definition qa_system_prompt :: string where
  "qa_system_prompt =
     ''You are a helpful assistant that answers questions accurately and thoroughly. ''
     @ ''Always provide a direct answer to questions. ''
     @ ''IMPORTANT INSTRUCTIONS:\<newline>''
     @ ''1. If the answer IS in the provided sources or memory, use that information and cite sources.\<newline>''
     @ ''2. If the answer is NOT in the sources or memory, use your general knowledge to provide the best possible answer.\<newline>''
     @ ''3. NEVER refuse to answer - always provide your best response.\<newline>''
     @ ''4. When using general knowledge not from sources, clearly indicate this.\<newline>''
     @ ''5. Keep your answers concise and relevant to the question.\<newline>''
     @ ''6. If there are multiple sources or memories with conflicting information, acknowledge this and explain the differences.\<newline>''
     @ ''7. When comparing information from different sources, organize your answer in a structured way that highlights similarities and differences.\<newline>''
     @ ''8. When memory items contain information from pages visited at different times, clearly identify temporal relationships like 'according to more recent information' or 'previously known information'.''"

text \<open>
  \<open>clean_query = query.replace("DIRECT QUESTION:", "").strip()\<close> and the first line of the
  user prompt, \<open>f"QUESTION: {clean_query}\n\n"\<close>.
\<close>

definition qa_clean_query :: "string \<Rightarrow> string" where
  "qa_clean_query query = strip (remove_all ''DIRECT QUESTION:'' query)"

definition question_line :: "string \<Rightarrow> string" where
  "question_line query = ''QUESTION: '' @ qa_clean_query query @ ''\<newline>\<newline>''"

subsection \<open>The conversation history\<close>

text \<open>
  A turn of the history is a dictionary read with \<open>item.get('role', '')\<close>,
  \<open>item.get('content', '')\<close>, \<open>item.get('isMemory', False)\<close> and \<open>'source' in item\<close>; its
  source is read with \<open>get('domain', '')\<close>, \<open>get('topic', '')\<close> and \<open>get('timestamp', 0)\<close>.
  A missing key is its default. \<open>conversation_history=None\<close> is the empty list.
\<close>

record source_info =
  src_domain :: string
  src_topic :: string
  src_timestamp :: int

record turn =
  t_role :: string
  t_content :: string
  t_isMemory :: bool
  t_source :: "source_info option"

text \<open>
  \<^verbatim>\<open>
  for item in conversation_history:
      ...
      if not content.strip():
          continue
      if is_memory and 'source' in item:
          source_info = item.get('source', {})
          domain = source_info.get('domain', '')
          if domain:
              memory_domains.add(domain)
              ...
          timestamp = source_info.get('timestamp', 0)
          if timestamp:
              memory_timestamps.append(timestamp)
      if is_memory:
          memory_items.append({'role': role, 'content': content})
      else:
          current_conversation.append({'role': role, 'content': content})
  has_multiple_sources = len(memory_domains) > 1
  has_temporal_differences = len(memory_timestamps) > 1 and \
      max(memory_timestamps) - min(memory_timestamps) > 24 * 60 * 60 * 1000
  \<close>
  \<open>domain_frequencies\<close> and \<open>memory_topics\<close> are written and never read.
\<close>

definition history_kept :: "turn list \<Rightarrow> turn list" where
  "history_kept history = filter (\<lambda>item. strip (t_content item) \<noteq> []) history"

definition memory_items :: "turn list \<Rightarrow> (string \<times> string) list" where
  "memory_items history =
     map (\<lambda>item. (t_role item, t_content item)) (filter t_isMemory (history_kept history))"

definition current_conversation :: "turn list \<Rightarrow> (string \<times> string) list" where
  "current_conversation history =
     map (\<lambda>item. (t_role item, t_content item))
       (filter (\<lambda>item. \<not> t_isMemory item) (history_kept history))"

definition memory_sources :: "turn list \<Rightarrow> source_info list" where
  "memory_sources history =
     List.map_filter t_source (filter t_isMemory (history_kept history))"

definition insertion_order :: "string list \<Rightarrow> string list" where
  "insertion_order xs = rev (remdups (rev xs))"

definition memory_domains :: "turn list \<Rightarrow> string list" where
  "memory_domains history =
     insertion_order (filter (\<lambda>domain. domain \<noteq> []) (map src_domain (memory_sources history)))"

definition memory_timestamps :: "turn list \<Rightarrow> int list" where
  "memory_timestamps history =
     filter (\<lambda>timestamp. timestamp \<noteq> 0) (map src_timestamp (memory_sources history))"

definition has_multiple_sources :: "turn list \<Rightarrow> bool" where
  "has_multiple_sources history = (length (memory_domains history) > 1)"

definition has_temporal_differences :: "turn list \<Rightarrow> bool" where
  "has_temporal_differences history =
     (let ts = memory_timestamps history in
      length ts > 1 \<and> fold max ts (hd ts) - fold min ts (hd ts) > 24 * 60 * 60 * 1000)"

text \<open>
  \<^verbatim>\<open>
  if is_comparison_question and has_multiple_sources:
      comparison_note = "COMPARISON CONTEXT: ... "
      comparison_note += f"from domains: {', '.join(memory_domains)}. "
      if has_temporal_differences:
          comparison_note += "These sources were accessed at different times, ... "
      comparison_note += "When answering, explicitly compare ...\n\n"
      memory_section += comparison_note
  \<close>
\<close>

definition comparison_note :: "env \<Rightarrow> turn list \<Rightarrow> string" where
  "comparison_note e history =
     ''COMPARISON CONTEXT: This question appears to be comparing information across multiple sources ''
     @ ''from domains: '' @ join '', '' (set_order e (memory_domains history)) @ ''. ''
     @ (if has_temporal_differences history
        then ''These sources were accessed at different times, so temporal context may be relevant. ''
        else [])
     @ ''When answering, explicitly compare and contrast information from different sources.\<newline>\<newline>''"

text \<open>
  The memory section. \<open>memory_items\<close> holds dictionaries with the keys \<open>role\<close> and
  \<open>content\<close> only, so in the grouping loop \<open>item.get('source', {})\<close> is the empty
  dictionary, \<open>domain\<close> is the empty text, every item goes to \<open>ungrouped_memories\<close>, and
  \<open>domain_groups\<close> stays empty: the branch that prints the groups is never entered.
  \<^verbatim>\<open>
  if memory_items:
      memory_content = "MEMORY CONTEXT (Information from previous conversations):\n"
      ...
      for item in ungrouped_memories:
          if role == 'user':
              memory_content += f"Previous Question: {content}\n\n"
          elif role == 'assistant':
              memory_content += f"Previous Answer: {content}\n\n"
      memory_content += "---\n\n"
      if is_comparison_question and has_multiple_sources:
          memory_content += "IMPORTANT: ..."
      memory_tokens = estimate_tokens(memory_content)
      if memory_tokens > MAX_MEMORY_TOKENS:
          memory_content = truncate_content_by_tokens(memory_content, MAX_MEMORY_TOKENS)
          memory_tokens = estimate_tokens(memory_content)
      memory_section += memory_content
      current_token_count += memory_tokens
  \<close>
  The functions of this kind return the section and the tokens they add to
  \<open>current_token_count\<close>.
\<close>

definition memory_line :: "string \<times> string \<Rightarrow> string" where
  "memory_line item =
     (if fst item = ''user'' then ''Previous Question: '' @ snd item @ ''\<newline>\<newline>''
      else if fst item = ''assistant'' then ''Previous Answer: '' @ snd item @ ''\<newline>\<newline>''
      else [])"

definition memory_content :: "bool \<Rightarrow> turn list \<Rightarrow> string" where
  "memory_content is_comparison_question history =
     ''MEMORY CONTEXT (Information from previous conversations):\<newline>''
     @ concat (map memory_line (memory_items history))
     @ ''---\<newline>\<newline>''
     @ (if is_comparison_question \<and> has_multiple_sources history
        then ''IMPORTANT: The question is asking to compare information across different sources or time periods. ''
             @ ''Please clearly identify differences and similarities between sources ''
             @ ''and explain any discrepancies you find.\<newline>\<newline>''
        else [])"

definition memory_part :: "env \<Rightarrow> bool \<Rightarrow> turn list \<Rightarrow> (string \<times> int) option" where
  "memory_part e is_comparison_question history =
     (let cmp_note = (if is_comparison_question \<and> has_multiple_sources history
                  then comparison_note e history else []) in
      if memory_items history = [] then Some (cmp_note, 0)
      else
        let content = memory_content is_comparison_question history in
        if estimate_tokens content > MAX_MEMORY_TOKENS then
          (case truncate_content_by_tokens (fp_of e) content MAX_MEMORY_TOKENS of
             None \<Rightarrow> None
           | Some truncated \<Rightarrow> Some (cmp_note @ truncated, estimate_tokens truncated))
        else Some (cmp_note @ content, estimate_tokens content))"

text \<open>
  \<^verbatim>\<open>
  if current_conversation:
      conv_content = "RECENT CONVERSATION:\n"
      for item in current_conversation:
          if role == 'user':
              conv_content += f"User: {content}\n\n"
          elif role == 'assistant':
              conv_content += f"Assistant: {content}\n\n"
      conv_content += "---\n\n"
      conv_tokens = estimate_tokens(conv_content)
      remaining_memory_tokens = MAX_MEMORY_TOKENS - estimate_tokens(memory_section)
      if conv_tokens > remaining_memory_tokens:
          conv_content = truncate_content_by_tokens(conv_content, remaining_memory_tokens)
          conv_tokens = estimate_tokens(conv_content)
      conversation_section = conv_content
      current_token_count += conv_tokens
  \<close>
\<close>

definition conversation_line :: "string \<times> string \<Rightarrow> string" where
  "conversation_line item =
     (if fst item = ''user'' then ''User: '' @ snd item @ ''\<newline>\<newline>''
      else if fst item = ''assistant'' then ''Assistant: '' @ snd item @ ''\<newline>\<newline>''
      else [])"

definition conversation_content :: "turn list \<Rightarrow> string" where
  "conversation_content history =
     ''RECENT CONVERSATION:\<newline>''
     @ concat (map conversation_line (current_conversation history))
     @ ''---\<newline>\<newline>''"

definition conversation_part :: "env \<Rightarrow> string \<Rightarrow> turn list \<Rightarrow> (string \<times> int) option" where
  "conversation_part e memory_section history =
     (if current_conversation history = [] then Some ([], 0)
      else
        let content = conversation_content history;
            remaining_memory_tokens = MAX_MEMORY_TOKENS - estimate_tokens memory_section in
        if estimate_tokens content > remaining_memory_tokens then
          (case truncate_content_by_tokens (fp_of e) content remaining_memory_tokens of
             None \<Rightarrow> None
           | Some truncated \<Rightarrow> Some (truncated, estimate_tokens truncated))
        else Some (content, estimate_tokens content))"

subsection \<open>The sources section\<close>

text \<open>
  \<^verbatim>\<open>
  sources_section = "CURRENT QUESTION AND SOURCES:\n"
  has_full_content = any(source.get('is_full_content', False) for source in summaries)
  ...
  used_tokens = current_token_count + estimate_tokens(sources_section)
  available_source_tokens = min(MAX_SOURCE_TOKENS, MAX_TOTAL_TOKENS - used_tokens - 5000)
  tokens_per_source = available_source_tokens // len(
      [s for s in summaries if s.get('is_full_content', False)])
  \<close>
  and, when no source is full content,
  \<^verbatim>\<open>
  available_source_tokens = min(MAX_SOURCE_TOKENS,
      MAX_TOTAL_TOKENS - current_token_count - estimate_tokens(sources_section) - 5000)
  tokens_per_source = available_source_tokens // len(summaries)
  \<close>
  Both branches run with at least one item to count, so the division is defined; \<open>//\<close>
  rounds down, as \<open>div\<close> does.
\<close>

definition sources_header :: string where
  "sources_header = ''CURRENT QUESTION AND SOURCES:\<newline>''"

definition has_full_content :: "summary_item list \<Rightarrow> bool" where
  "has_full_content summaries = list_ex s_is_full_content summaries"

definition available_source_tokens :: "int \<Rightarrow> int" where
  "available_source_tokens current_token_count =
     min MAX_SOURCE_TOKENS
       (MAX_TOTAL_TOKENS - (current_token_count + estimate_tokens sources_header) - 5000)"

definition tokens_per_source :: "int \<Rightarrow> summary_item list \<Rightarrow> int" where
  "tokens_per_source current_token_count summaries =
     (if has_full_content summaries
      then available_source_tokens current_token_count
             div int (length (filter s_is_full_content summaries))
      else available_source_tokens current_token_count div int (length summaries))"

text \<open>
  What a full-content source shows of its content:
  \<^verbatim>\<open>
  full_content = source.get('summary', '')
  content_tokens = estimate_tokens(full_content)
  if content_tokens > tokens_per_source:
      full_content = truncate_content_by_tokens(full_content, tokens_per_source)
  source_content += f"Content: {full_content}\n\n"
  \<close>
  and what a summarized source shows:
  \<^verbatim>\<open>
  summary_text = source.get('summary', '')
  summary_tokens = estimate_tokens(summary_text)
  if summary_tokens > tokens_per_source or len(summary_text) > 500:
      max_tokens = min(tokens_per_source, estimate_tokens("." * 500))
      summary_text = truncate_content_by_tokens(summary_text, max_tokens)
  \<close>
\<close>

definition full_content_shown :: "env \<Rightarrow> int \<Rightarrow> summary_item \<Rightarrow> string option" where
  "full_content_shown e per_source source =
     (let full_content = s_summary source in
      if estimate_tokens full_content > per_source
      then truncate_content_by_tokens (fp_of e) full_content per_source
      else Some full_content)"

definition summary_shown :: "env \<Rightarrow> int \<Rightarrow> summary_item \<Rightarrow> string option" where
  "summary_shown e per_source source =
     (let summary_text = s_summary source in
      if estimate_tokens summary_text > per_source \<or> length summary_text > 500
      then truncate_content_by_tokens (fp_of e) summary_text
             (min per_source (estimate_tokens (replicate 500 CHR ''.'')))
      else Some summary_text)"

definition full_source_block :: "env \<Rightarrow> int \<Rightarrow> summary_item \<Rightarrow> string option" where
  "full_source_block e per_source source =
     (case full_content_shown e per_source source of
        None \<Rightarrow> None
      | Some full_content \<Rightarrow>
          Some (''Title: '' @ s_title source @ ''\<newline>''
                @ ''URL: '' @ s_url source @ ''\<newline>''
                @ ''Content: '' @ full_content @ ''\<newline>\<newline>''
                @ ''IMPORTANT: This is content from the webpage. ''
                @ ''The answer to the question is likely contained within this content. ''
                @ ''Please read through the content carefully to find relevant information.\<newline>\<newline>''
                @ (if s_has_html source
                   then ''NOTE: This content includes HTML with actual links in the format 'text [LINK: url]'. ''
                        @ ''When referring to links, use the exact URLs provided. Do not create or guess URLs. ''
                        @ ''If asked about links or articles, only mention those that are explicitly present in the content.\<newline>\<newline>''
                   else [])))"

definition summary_source_block :: "env \<Rightarrow> int \<Rightarrow> nat \<Rightarrow> summary_item \<Rightarrow> string option" where
  "summary_source_block e per_source idx source =
     (case summary_shown e per_source source of
        None \<Rightarrow> None
      | Some summary_text \<Rightarrow>
          Some (''Source '' @ str_nat idx @ '':\<newline>''
                @ ''Title: '' @ s_title source @ ''\<newline>''
                @ ''URL: '' @ s_url source @ ''\<newline>''
                @ ''Content: '' @ summary_text @ ''\<newline>\<newline>''))"

text \<open>
  The loops over \<open>enumerate(summaries, 1)\<close>. A truncation that raises ends the loop with
  the exception. In the first loop the sources that are not full content are passed over.
\<close>

fun full_source_blocks :: "env \<Rightarrow> int \<Rightarrow> summary_item list \<Rightarrow> string option" where
  "full_source_blocks e per_source [] = Some []"
| "full_source_blocks e per_source (source # rest) =
     (if s_is_full_content source then
        (case full_source_block e per_source source of
           None \<Rightarrow> None
         | Some block \<Rightarrow>
             (case full_source_blocks e per_source rest of
                None \<Rightarrow> None
              | Some blocks \<Rightarrow> Some (block @ blocks)))
      else full_source_blocks e per_source rest)"

fun summary_source_blocks :: "env \<Rightarrow> int \<Rightarrow> nat \<Rightarrow> summary_item list \<Rightarrow> string option" where
  "summary_source_blocks e per_source idx [] = Some []"
| "summary_source_blocks e per_source idx (source # rest) =
     (case summary_source_block e per_source idx source of
        None \<Rightarrow> None
      | Some block \<Rightarrow>
          (case summary_source_blocks e per_source (Suc idx) rest of
             None \<Rightarrow> None
           | Some blocks \<Rightarrow> Some (block @ blocks)))"

definition sources_section :: "env \<Rightarrow> int \<Rightarrow> summary_item list \<Rightarrow> string option" where
  "sources_section e current_token_count summaries =
     (let per_source = tokens_per_source current_token_count summaries in
      if summaries = [] then
        Some (sources_header
              @ ''No recent sources are available. Please answer based on memory context and your general knowledge.\<newline>\<newline>'')
      else if has_full_content summaries then
        (case full_source_blocks e per_source summaries of
           None \<Rightarrow> None
         | Some blocks \<Rightarrow>
             Some (sources_header
                   @ ''FULL WEBPAGE CONTENT (complete, not summarized):\<newline>\<newline>'' @ blocks))
      else
        (case summary_source_blocks e per_source 1 summaries of
           None \<Rightarrow> None
         | Some blocks \<Rightarrow> Some (sources_header @ blocks)))"

subsection \<open>The user prompt and the final check\<close>

definition final_instruction :: "bool \<Rightarrow> string" where
  "final_instruction is_comparison_question =
     ''Now answer the question directly and specifically. ''
     @ ''If the answer is in the sources or memory context, cite the source. ''
     @ ''If the information is not in the sources but in memory, indicate which memory item contains the information. ''
     @ ''If neither sources nor memory contain the answer, provide the answer from your general knowledge ''
     @ ''and clearly state that it comes from your knowledge rather than the provided sources.''
     @ (if is_comparison_question
        then ''\<newline>\<newline>Since this question involves comparing information, please structure your answer to clearly ''
             @ ''highlight similarities and differences between sources. You may use a structured format like:\<newline>''
             @ ''* Point of comparison 1: [Source A says X, Source B says Y]\<newline>''
             @ ''* Point of comparison 2: [Source A says P, Source B says Q]\<newline>''
             @ ''Conclude with insights about why these differences might exist.''
        else [])"


text \<open>
  \<open>user_prompt += memory_section + conversation_section + sources_section +
  final_instruction\<close>: the prompt before the final check.
\<close>

definition assembled_prompt ::
  "env \<Rightarrow> string \<Rightarrow> summary_item list \<Rightarrow> turn list \<Rightarrow> string option" where
  "assembled_prompt e query summaries history =
     (let is_comparison_question = comparison e (qa_clean_query query) in
      case memory_part e is_comparison_question history of
        None \<Rightarrow> None
      | Some (memory_section, memory_tokens) \<Rightarrow>
          (case conversation_part e memory_section history of
             None \<Rightarrow> None
           | Some (conversation_section, conv_tokens) \<Rightarrow>
               (case sources_section e
                       (estimate_tokens qa_system_prompt + estimate_tokens (question_line query)
                        + memory_tokens + conv_tokens) summaries of
                  None \<Rightarrow> None
                | Some sources \<Rightarrow>
                    Some (question_line query @ memory_section @ conversation_section
                          @ sources @ final_instruction is_comparison_question))))"

text \<open>
  \<^verbatim>\<open>
  total_user_tokens = estimate_tokens(user_prompt)
  total_tokens = system_tokens + total_user_tokens
  if total_tokens > MAX_TOTAL_TOKENS:
      available_user_tokens = MAX_TOTAL_TOKENS - system_tokens - 1000
      user_prompt = truncate_content_by_tokens(user_prompt, available_user_tokens)
  \<close>
  The same check closes \<open>create_summary\<close>, with its own system prompt.
\<close>

definition final_check :: "env \<Rightarrow> string \<Rightarrow> string \<Rightarrow> string option" where
  "final_check e system_prompt user_prompt =
     (let system_tokens = estimate_tokens system_prompt in
      if system_tokens + estimate_tokens user_prompt > MAX_TOTAL_TOKENS
      then truncate_content_by_tokens (fp_of e) user_prompt
             (MAX_TOTAL_TOKENS - system_tokens - 1000)
      else Some user_prompt)"

definition question_prompt ::
  "env \<Rightarrow> string \<Rightarrow> summary_item list \<Rightarrow> turn list \<Rightarrow> string option" where
  "question_prompt e query summaries history =
     (case assembled_prompt e query summaries history of
        None \<Rightarrow> None
      | Some user_prompt \<Rightarrow> final_check e qa_system_prompt user_prompt)"

text \<open>
  The result dictionary of the pipeline.
\<close>

record result =
  r_query :: string
  r_summaries :: "summary_item list"
  r_consolidated_summary :: "string option"
  r_generation_time :: real
  r_isQuestion :: bool

text \<open>
  \<^verbatim>\<open>
  success, answer, generation_time = self.generate_llm_response(
      "question_answer", {"system": system_prompt, "user": user_prompt}, model_info)
  if not success:
      return False, {"query": clean_query, "summaries": summaries,
                     "consolidated_summary": "Failed to generate an answer to your question.",
                     "generation_time": generation_time, "isQuestion": True}
  return True, {"query": clean_query, "summaries": summaries,
                "consolidated_summary": answer,
                "generation_time": generation_time, "isQuestion": True}
  \<close>
  \<^term>\<open>None\<close> is an exception that leaves the method.
\<close>

definition create_question_answer ::
  "env \<Rightarrow> string \<Rightarrow> summary_item list \<Rightarrow> model_info \<Rightarrow> turn list
     \<Rightarrow> (bool \<times> result) option" where
  "create_question_answer e query summaries mi history =
     (case question_prompt e query summaries history of
        None \<Rightarrow> None
      | Some user_prompt \<Rightarrow>
          (case generate_llm_response e qa_system_prompt user_prompt mi of
             (success, answer, generation_time) \<Rightarrow>
               if \<not> success then
                 Some (False,
                   \<lparr> r_query = qa_clean_query query, r_summaries = summaries,
                     r_consolidated_summary =
                       Some ''Failed to generate an answer to your question.'',
                     r_generation_time = generation_time, r_isQuestion = True \<rparr>)
               else
                 Some (True,
                   \<lparr> r_query = qa_clean_query query, r_summaries = summaries,
                     r_consolidated_summary = answer,
                     r_generation_time = generation_time, r_isQuestion = True \<rparr>)))"

section \<open>Prompt assembly for summaries (\<open>create_summary\<close>)\<close>

definition summary_system_prompt :: string where
  "summary_system_prompt =
     ''You are a helpful assistant that creates concise, accurate summaries. ''
     @ ''Summarize the provided sources into a coherent overview that captures the key points. ''
     @ ''Focus on accuracy and clarity.''"

text \<open>
  \<^verbatim>\<open>
  MAX_SOURCE_TOKENS = 150000
  user_prompt = f"Please create a summary for: {query}\n\n"
  user_prompt += "Here are the sources to summarize:\n\n"
  if summaries:
      tokens_per_source = available_tokens // len(summaries) if summaries else available_tokens
      for idx, source in enumerate(summaries, 1):
          summary_text = source.get('summary', '')
          summary_tokens = estimate_tokens(summary_text)
          if summary_tokens > tokens_per_source:
              summary_text = truncate_content_by_tokens(summary_text, tokens_per_source)
          elif len(summary_text) > 500:
              summary_text = summary_text[:497] + "..."
          source_content = f"Source {idx}:\n" ...
      user_prompt += sources_content
  else:
      user_prompt += "No sources are available for summarization.\n\n"
  user_prompt += ("Create a well-structured summary ...")
  \<close>
  followed by the final check and the provider call.
\<close>

definition summary_text_shown :: "env \<Rightarrow> int \<Rightarrow> summary_item \<Rightarrow> string option" where
  "summary_text_shown e per_source source =
     (let summary_text = s_summary source in
      if estimate_tokens summary_text > per_source
      then truncate_content_by_tokens (fp_of e) summary_text per_source
      else if length summary_text > 500 then Some (take 497 summary_text @ ''...'')
      else Some summary_text)"

fun summary_blocks :: "env \<Rightarrow> int \<Rightarrow> nat \<Rightarrow> summary_item list \<Rightarrow> string option" where
  "summary_blocks e per_source idx [] = Some []"
| "summary_blocks e per_source idx (source # rest) =
     (case summary_text_shown e per_source source of
        None \<Rightarrow> None
      | Some summary_text \<Rightarrow>
          (case summary_blocks e per_source (Suc idx) rest of
             None \<Rightarrow> None
           | Some blocks \<Rightarrow>
               Some (''Source '' @ str_nat idx @ '':\<newline>''
                     @ ''Title: '' @ s_title source @ ''\<newline>''
                     @ ''URL: '' @ s_url source @ ''\<newline>''
                     @ ''Content: '' @ summary_text @ ''\<newline>\<newline>''
                     @ blocks)))"

definition summary_prompt :: "env \<Rightarrow> string \<Rightarrow> summary_item list \<Rightarrow> string option" where
  "summary_prompt e query summaries =
     (case (if summaries = []
            then Some ''No sources are available for summarization.\<newline>\<newline>''
            else summary_blocks e (150000 div int (length summaries)) 1 summaries) of
        None \<Rightarrow> None
      | Some sources_content \<Rightarrow>
          final_check e summary_system_prompt
            (''Please create a summary for: '' @ query @ ''\<newline>\<newline>''
             @ ''Here are the sources to summarize:\<newline>\<newline>''
             @ sources_content
             @ ''Create a well-structured summary that captures the key information from all sources. ''
               @ ''Focus on accuracy and readability. ''
               @ ''Keep the consolidated summary concise (less than 150 words).''))"

definition create_summary ::
  "env \<Rightarrow> string \<Rightarrow> summary_item list \<Rightarrow> model_info \<Rightarrow> (bool \<times> result) option" where
  "create_summary e query summaries mi =
     (case summary_prompt e query summaries of
        None \<Rightarrow> None
      | Some user_prompt \<Rightarrow>
          (case generate_llm_response e summary_system_prompt user_prompt mi of
             (success, summary, generation_time) \<Rightarrow>
               if \<not> success then
                 Some (False,
                   \<lparr> r_query = query, r_summaries = summaries,
                     r_consolidated_summary = Some ''Failed to generate summary.'',
                     r_generation_time = generation_time, r_isQuestion = False \<rparr>)
               else
                 Some (True,
                   \<lparr> r_query = query, r_summaries = summaries,
                     r_consolidated_summary = summary,
                     r_generation_time = generation_time, r_isQuestion = False \<rparr>)))"

section \<open>The pipeline (\<open>process_query\<close>)\<close>

text \<open>
  \<open>page_content\<close> is a dictionary or \<open>None\<close>. The keys the pipeline reads are the fields
  of the record; \<open>p_more\<close> says that it has further keys (\<open>main\<close> finds
  \<open>additionalContexts\<close> there). The pipeline tests \<open>page_content\<close> and \<open>model_info\<close> for
  truth, which an empty dictionary fails as \<open>None\<close> does.
\<close>

record page_content =
  p_htmlContent :: "string option"
  p_content :: "string option"
  p_title :: "string option"
  p_url :: "string option"
  p_more :: bool

definition given_page :: "page_content option \<Rightarrow> bool" where
  "given_page page_content =
     (case page_content of
        None \<Rightarrow> False
      | Some p \<Rightarrow> p_htmlContent p \<noteq> None \<or> p_content p \<noteq> None \<or> p_title p \<noteq> None
                  \<or> p_url p \<noteq> None \<or> p_more p)"

definition usable_page :: "page_content option \<Rightarrow> page_content option" where
  "usable_page page_content = (if given_page page_content then page_content else None)"

definition usable_info :: "model_info option \<Rightarrow> model_info option" where
  "usable_info model_info = (if given_model_info model_info then model_info else None)"

text \<open>
  The result of the pipeline: \<open>{'success': True, 'data': result}\<close>, or
  \<open>{'success': False, 'error': str(e)}\<close> from the handler around the whole method, which
  catches what a called method raises.
\<close>

datatype response = Success result | Failure

text \<open>
  \<^verbatim>\<open>
  is_url = query.startswith('http://') or query.startswith('https://')
  if is_url:
      query_is_question = False
  else:
      query_is_question = is_question if is_question is not None else self.is_question(query)
      if model_info and isinstance(model_info, dict) and 'isQuestion' in model_info:
          query_is_question = query_is_question or model_info.get('isQuestion')
      original_query = ""
      if model_info and isinstance(model_info, dict):
          original_query = model_info.get('originalQuery', '')
          if original_query and not is_url and self.is_question(original_query):
              query_is_question = True
  \<close>
\<close>

definition is_url :: "string \<Rightarrow> bool" where
  "is_url query = (startswith query ''http://'' \<or> startswith query ''https://'')"

definition question_flag :: "string \<Rightarrow> model_info option \<Rightarrow> bool option \<Rightarrow> bool" where
  "question_flag query model_info is_question_arg =
     (if is_url query then False
      else
        let asked = (case is_question_arg of Some b \<Rightarrow> b | None \<Rightarrow> is_question query) in
        (case usable_info model_info of
           None \<Rightarrow> asked
         | Some mi \<Rightarrow>
             let flagged = (case mi_isQuestion mi of Some b \<Rightarrow> asked \<or> b | None \<Rightarrow> asked);
                 original_query = (case mi_originalQuery mi of Some q \<Rightarrow> q | None \<Rightarrow> [])
             in if original_query \<noteq> [] \<and> \<not> is_url query \<and> is_question original_query then True
                else flagged))"

text \<open>
  The question about links, answered from the markup of the page:
  \<^verbatim>\<open>
  if query_is_question and is_about_links and has_html_content and model_info:
      user_prompt = f"WEBPAGE ANALYSIS QUESTION: {clean_query}\n\n"
      user_prompt += "Below is the HTML content ...\n\n"
      user_prompt += f"Page title: {page_content.get('title', 'Untitled')}\n"
      user_prompt += f"URL: {page_content.get('url', '')}\n\n"
      html_content = page_content.get('htmlContent', '')
      if len(html_content) > 50000:
          html_content = html_content[:50000] + "... [HTML truncated]"
      user_prompt += "HTML CONTENT:\n"
      user_prompt += html_content
      user_prompt += "\n\n"
      user_prompt += ("Please analyze this HTML ...")
      success, answer, generation_time = self.generate_llm_response(...)
      if success:
          return {'success': True, 'data': {"query": clean_query, "summaries": [],
                  "consolidated_summary": answer, "generation_time": generation_time,
                  "isQuestion": True}}
  \<close>
  A step of the pipeline either returns the response or goes on.
\<close>

datatype 'a step = Return response | Continue 'a

definition html_system_prompt :: string where
  "html_system_prompt =
     ''You are a helpful assistant with expertise in understanding webpage structure and content. ''
     @ ''When analyzing HTML content, pay special attention to links, buttons, navigation elements, and UI components. ''
     @ ''If asked about specific UI elements or links, identify them clearly in your answer. ''
     @ ''Format links as '[Link text](URL)' in your response for clarity. ''
     @ ''Always provide direct answers based on the actual page content, ''
     @ ''and do not make assumptions about content that isn't visible.''"

definition html_user_prompt :: "string \<Rightarrow> page_content \<Rightarrow> string" where
  "html_user_prompt clean p =
     (let html = (case p_htmlContent p of Some h \<Rightarrow> h | None \<Rightarrow> []);
          html_content = (if length html > 50000 then take 50000 html @ ''... [HTML truncated]''
                          else html)
      in ''WEBPAGE ANALYSIS QUESTION: '' @ clean @ ''\<newline>\<newline>''
         @ ''Below is the HTML content of a webpage with specially marked links in the format 'text [LINK: url]'.\<newline>\<newline>''
         @ ''Page title: '' @ (case p_title p of Some t \<Rightarrow> t | None \<Rightarrow> ''Untitled'') @ ''\<newline>''
         @ ''URL: '' @ (case p_url p of Some u \<Rightarrow> u | None \<Rightarrow> []) @ ''\<newline>\<newline>''
         @ ''HTML CONTENT:\<newline>'' @ html_content @ ''\<newline>\<newline>''
         @ ''Please analyze this HTML to answer the question. ''
           @ ''If the question is about finding links, buttons, or navigation elements, ''
           @ ''list all relevant elements with their text and URLs. ''
           @ ''If asked about a specific link or UI element, provide details if found. ''
           @ ''If the information isn't available in the HTML, clearly state that you cannot find it.'')"

definition html_step ::
  "env \<Rightarrow> string \<Rightarrow> bool \<Rightarrow> page_content option \<Rightarrow> model_info option \<Rightarrow> unit step" where
  "html_step e clean query_is_question page_content model_info =
     (case (usable_page page_content, usable_info model_info) of
        (Some p, Some mi) \<Rightarrow>
          if query_is_question \<and> mi_isAboutLinks mi = Some True \<and> p_htmlContent p \<noteq> None then
            (case generate_llm_response e html_system_prompt (html_user_prompt clean p) mi of
               (success, answer, generation_time) \<Rightarrow>
                 if success then
                   Return (Success
                     \<lparr> r_query = clean, r_summaries = [], r_consolidated_summary = answer,
                       r_generation_time = generation_time, r_isQuestion = True \<rparr>)
                 else Continue ())
          else Continue ()
      | _ \<Rightarrow> Continue ())"

text \<open>
  The additional contexts:
  \<^verbatim>\<open>
  for i, ctx in enumerate(additional_contexts):
      if isinstance(ctx, dict) and 'content' in ctx:
          ctx_content = ctx.get('content', {})
          ctx_title = ctx.get('title', f'Context {i+1}')
          ctx_url = ctx.get('url', '')
          if isinstance(ctx_content, dict):
              content_text = ctx_content.get('content', '')
              content_html = ctx_content.get('html', '')
              has_html = bool(content_html)
              content_to_use = content_html if has_html else content_text
              if content_to_use and len(content_to_use) > 50:
                  if query_is_question:
                      summaries.append({'title': ctx_title, 'url': ctx_url,
                          'summary': content_to_use, 'is_full_content': True,
                          'has_html': has_html})
                  else:
                      summary_text = self.summarize_text(content_to_use)
                      summaries.append({'title': ctx_title, 'url': ctx_url,
                          'summary': summary_text, 'has_html': has_html})
  \<close>
  A context that is not a dictionary is passed over as one without \<open>content\<close> is.
\<close>

definition ctx_html :: "ctx \<Rightarrow> string" where
  "ctx_html c = (case c_content c of Some (Body text (Some html)) \<Rightarrow> html | _ \<Rightarrow> [])"

definition content_to_use :: "ctx \<Rightarrow> string" where
  "content_to_use c =
     (case c_content c of
        Some (Body content_text content_html) \<Rightarrow>
          if ctx_html c \<noteq> [] then ctx_html c
          else (case content_text of Some t \<Rightarrow> t | None \<Rightarrow> [])
      | _ \<Rightarrow> [])"

definition context_item :: "env \<Rightarrow> bool \<Rightarrow> nat \<Rightarrow> ctx \<Rightarrow> summary_item" where
  "context_item e query_is_question i c =
     \<lparr> s_title = (case c_title c of Some t \<Rightarrow> t | None \<Rightarrow> ''Context '' @ str_nat (i + 1)),
       s_url = (case c_url c of Some u \<Rightarrow> u | None \<Rightarrow> []),
       s_summary = (if query_is_question then content_to_use c
                    else summarize_text (nlp_of e) (content_to_use c) 5),
       s_is_full_content = query_is_question,
       s_has_html = (ctx_html c \<noteq> []) \<rparr>"

fun context_summaries :: "env \<Rightarrow> bool \<Rightarrow> nat \<Rightarrow> ctx list \<Rightarrow> summary_item list" where
  "context_summaries e query_is_question i [] = []"
| "context_summaries e query_is_question i (c # rest) =
     (if content_to_use c \<noteq> [] \<and> length (content_to_use c) > 50
      then context_item e query_is_question i c
             # context_summaries e query_is_question (Suc i) rest
      else context_summaries e query_is_question (Suc i) rest)"

definition additional_summaries :: "env \<Rightarrow> bool \<Rightarrow> model_info option \<Rightarrow> summary_item list" where
  "additional_summaries e query_is_question model_info =
     (case usable_info model_info of
        Some mi \<Rightarrow>
          (case mi_additionalContexts mi of
             Some additional_contexts \<Rightarrow> context_summaries e query_is_question 0 additional_contexts
           | None \<Rightarrow> [])
      | None \<Rightarrow> [])"

text \<open>
  The page: \<open>has_html = 'htmlContent' in page_content and page_content.get('htmlContent')\<close>,
  the content is the markup when there is some and \<open>page_content.get('content', '')\<close>
  otherwise, the title \<open>page_content.get('title', 'Untitled Page')\<close> and the address
  \<open>page_content.get('url', query)\<close>. A question takes the content whole,
  \<^verbatim>\<open>
  if content and len(content) > 200:
      summaries.append({'title': title, 'url': url, 'summary': content,
                        'is_full_content': True, 'has_html': has_html})
  \<close>
  and the normal path takes its summary, \<open>self.summarize_text(content)\<close>, without
  \<open>is_full_content\<close>.
\<close>

definition page_has_html :: "page_content \<Rightarrow> bool" where
  "page_has_html p = (p_htmlContent p \<noteq> None \<and> p_htmlContent p \<noteq> Some [])"

definition page_body :: "page_content \<Rightarrow> string" where
  "page_body p =
     (if page_has_html p then (case p_htmlContent p of Some h \<Rightarrow> h | None \<Rightarrow> [])
      else (case p_content p of Some c \<Rightarrow> c | None \<Rightarrow> []))"

definition page_full_items :: "string \<Rightarrow> page_content \<Rightarrow> summary_item list" where
  "page_full_items query p =
     (if page_body p \<noteq> [] \<and> length (page_body p) > 200 then
        [\<lparr> s_title = (case p_title p of Some t \<Rightarrow> t | None \<Rightarrow> ''Untitled Page''),
           s_url = (case p_url p of Some u \<Rightarrow> u | None \<Rightarrow> query),
           s_summary = page_body p,
           s_is_full_content = True,
           s_has_html = page_has_html p \<rparr>]
      else [])"

definition page_summary_items :: "env \<Rightarrow> string \<Rightarrow> page_content \<Rightarrow> summary_item list" where
  "page_summary_items e query p =
     (if page_body p \<noteq> [] \<and> length (page_body p) > 200 then
        [\<lparr> s_title = (case p_title p of Some t \<Rightarrow> t | None \<Rightarrow> ''Untitled Page''),
           s_url = (case p_url p of Some u \<Rightarrow> u | None \<Rightarrow> query),
           s_summary = summarize_text (nlp_of e) (page_body p) 5,
           s_is_full_content = False,
           s_has_html = page_has_html p \<rparr>]
      else [])"

text \<open>
  The direct question:
  \<^verbatim>\<open>
  if query_is_question and page_content and isinstance(page_content, dict) and model_info:
      ...
      if content and len(content) > 200:
          summaries.append(page_summary)
      if summaries:
          success, result = self.create_question_answer(
              clean_query, summaries, model_info, conversation_history)
          if success:
              return {'success': True, 'data': result}
  \<close>
  The step goes on with the summaries it has.
\<close>

definition direct_step ::
  "env \<Rightarrow> string \<Rightarrow> string \<Rightarrow> bool \<Rightarrow> page_content option \<Rightarrow> model_info option \<Rightarrow> turn list
     \<Rightarrow> summary_item list \<Rightarrow> summary_item list step" where
  "direct_step e query clean query_is_question page_content model_info history summaries =
     (case (usable_page page_content, usable_info model_info) of
        (Some p, Some mi) \<Rightarrow>
          if query_is_question then
            (let summaries = summaries @ page_full_items query p in
             if summaries \<noteq> [] then
               (case create_question_answer e clean summaries mi history of
                  None \<Rightarrow> Return Failure
                | Some (success, result) \<Rightarrow>
                    if success then Return (Success result) else Continue summaries)
             else Continue summaries)
          else Continue summaries
      | _ \<Rightarrow> Continue summaries)"

text \<open>
  The normal path:
  \<^verbatim>\<open>
  if page_content and isinstance(page_content, dict) and not summaries:
      ...
      if content and len(content) > 200:
          summary = self.summarize_text(content)
          summaries.append({'title': title, 'url': url, 'summary': summary,
                            'has_html': has_html})
  elif provided_urls and len(provided_urls) > 0:
      summaries.extend(self.process_urls(provided_urls, clean_query))
  elif not summaries:
      search_urls = self.get_google_search_results(clean_query)
      if search_urls:
          summaries.extend(self.process_urls(search_urls, clean_query))
  \<close>
  \<open>provided_urls=None\<close> is the empty list.
\<close>

definition normal_summaries ::
  "env \<Rightarrow> string \<Rightarrow> string \<Rightarrow> string list \<Rightarrow> page_content option \<Rightarrow> summary_item list
     \<Rightarrow> summary_item list" where
  "normal_summaries e query clean provided_urls page_content summaries =
     (case usable_page page_content of
        Some p \<Rightarrow>
          if summaries = [] then summaries @ page_summary_items e query p
          else if provided_urls \<noteq> [] then summaries @ process_urls e provided_urls clean
          else summaries
      | None \<Rightarrow>
          if provided_urls \<noteq> [] then summaries @ process_urls e provided_urls clean
          else if summaries = [] then
            (let search_urls = search e clean in
             if search_urls \<noteq> [] then summaries @ process_urls e search_urls clean
             else summaries)
          else summaries)"

text \<open>
  The end of the pipeline:
  \<^verbatim>\<open>
  if not summaries:
      default_message = "No relevant information found."
      if query_is_question and model_info:
          success, result = self.create_question_answer(
              clean_query, [], model_info, conversation_history)
          if success:
              return {'success': True, 'data': result}
      return {'success': True, 'data': {'query': clean_query, 'summaries': [],
              'consolidated_summary': default_message, 'generation_time': 0,
              'isQuestion': query_is_question}}
  if not model_info:
      return {'success': True, 'data': {'query': clean_query, 'summaries': summaries,
              'consolidated_summary': None, 'generation_time': 0,
              'isQuestion': query_is_question}}
  if query_is_question:
      success, result = self.create_question_answer(
          clean_query, summaries, model_info, conversation_history)
  else:
      success, result = self.create_summary(clean_query, summaries, model_info)
  if not success:
      return {'success': True,  # Still return success to avoid client errors
              'data': {'query': clean_query, 'summaries': summaries,
                       'consolidated_summary': "Failed to generate a response.",
                       'generation_time': 0, 'isQuestion': query_is_question}}
  return {'success': True, 'data': result}
  \<close>
\<close>

definition no_information :: "string \<Rightarrow> bool \<Rightarrow> response" where
  "no_information clean query_is_question =
     Success \<lparr> r_query = clean, r_summaries = [],
               r_consolidated_summary = Some ''No relevant information found.'',
               r_generation_time = 0, r_isQuestion = query_is_question \<rparr>"

definition finish ::
  "env \<Rightarrow> string \<Rightarrow> bool \<Rightarrow> model_info option \<Rightarrow> turn list \<Rightarrow> summary_item list
     \<Rightarrow> response" where
  "finish e clean query_is_question model_info history summaries =
     (if summaries = [] then
        (case usable_info model_info of
           Some mi \<Rightarrow>
             if query_is_question then
               (case create_question_answer e clean [] mi history of
                  None \<Rightarrow> Failure
                | Some (success, result) \<Rightarrow>
                    if success then Success result
                    else no_information clean query_is_question)
             else no_information clean query_is_question
         | None \<Rightarrow> no_information clean query_is_question)
      else
        (case usable_info model_info of
           None \<Rightarrow>
             Success \<lparr> r_query = clean, r_summaries = summaries,
                       r_consolidated_summary = None,
                       r_generation_time = 0, r_isQuestion = query_is_question \<rparr>
         | Some mi \<Rightarrow>
             (case (if query_is_question
                    then create_question_answer e clean summaries mi history
                    else create_summary e clean summaries mi) of
                None \<Rightarrow> Failure
              | Some (success, result) \<Rightarrow>
                  if \<not> success then
                    Success \<lparr> r_query = clean, r_summaries = summaries,
                              r_consolidated_summary = Some ''Failed to generate a response.'',
                              r_generation_time = 0, r_isQuestion = query_is_question \<rparr>
                  else Success result)))"

definition process_query ::
  "env \<Rightarrow> string \<Rightarrow> string list \<Rightarrow> page_content option \<Rightarrow> model_info option \<Rightarrow> bool option
     \<Rightarrow> turn list \<Rightarrow> response" where
  "process_query e query provided_urls page_content model_info is_question_arg history =
     (let clean = clean_query e query;
          query_is_question = question_flag query model_info is_question_arg
      in
      case html_step e clean query_is_question page_content model_info of
        Return r \<Rightarrow> r
      | Continue u \<Rightarrow>
          (case direct_step e query clean query_is_question page_content model_info history
                  (additional_summaries e query_is_question model_info) of
             Return r \<Rightarrow> r
           | Continue summaries \<Rightarrow>
               finish e clean query_is_question model_info history
                 (normal_summaries e query clean provided_urls page_content summaries)))"

section \<open>Concrete inputs\<close>

text \<open>
  The inputs at which the theorems below are evaluated. The texts are made of short
  sentences that end in \<open>!\<close> or \<open>?\<close>. On such a text \<open>sent_tokenize\<close> splits after each
  mark that a space follows, and \<open>word_tokenize\<close> returns the words and the marks, each
  mark on its own; the two functions below compute just that. The stop words are the
  members of NLTK's English list that occur in the texts.
\<close>

fun mark_sentences :: "string \<Rightarrow> string \<Rightarrow> string list" where
  "mark_sentences cur [] = (if cur = [] then [] else [cur])"
| "mark_sentences cur (c # cs) =
     (if c = CHR ''!'' \<or> c = CHR ''?'' then
        (case cs of
           [] \<Rightarrow> [cur @ [c]]
         | d # ds \<Rightarrow> if is_space d then (cur @ [c]) # mark_sentences [] ds
                    else mark_sentences (cur @ [c]) cs)
      else mark_sentences (cur @ [c]) cs)"

fun pad_marks :: "string \<Rightarrow> string" where
  "pad_marks [] = []"
| "pad_marks (c # cs) =
     (if c = CHR ''!'' \<or> c = CHR ''?'' then CHR '' '' # c # CHR '' '' # pad_marks cs
      else c # pad_marks cs)"

definition demo_nlp :: nlp where
  "demo_nlp = \<lparr> sent_tokenize = (\<lambda>text. Some (mark_sentences [] text)),
                 word_tokenize = (\<lambda>text. Some (split (pad_marks text))),
                 stop_words = set [''is'', ''it'', ''so'', ''too'', ''why'', ''was'', ''that'',
                                   ''who'', ''what''] \<rparr>"

definition solar_text :: string where
  "solar_text = ''Solar panels make power! Is it so? Panels need sun! Power runs homes! Homes need power! Wind makes power too! Panels help homes!''"

definition cats_text :: string where
  "cats_text = ''Cats purr loudly! Why is it so? Why was it so? Why is that so? Why was that so? Who is it? Who was it? What is it? What was that?''"

definition farm_text :: string where
  "farm_text = ''Cats purr! Dogs bark! Birds sing! Fish swim! Cows moo! Pigs oink!''"

text \<open>
  \<open>urllib\<close> on the addresses used below: the value of \<open>q\<close> for an address that starts with
  \<open>https://example.com/page?q=\<close> and has no further \<open>&\<close>, \<open>#\<close>, \<open>%\<close> or \<open>+\<close>, and
  \<open>ValueError\<close> (invalid IPv6 address) for one whose host is an opening square bracket.
  The pages of the demonstration site are plain text, so BeautifulSoup returns the page
  itself as its text, and they have no title element.
\<close>

definition demo_url_q :: "string \<Rightarrow> q_lookup" where
  "demo_url_q query =
     (if prefix ''https://example.com/page?q='' query then Q (drop 27 query)
      else if prefix ''http://[?'' query then Raises
      else NoQ)"

definition demo_page :: string where
  "demo_page = concat (replicate 4 ''Solar panels make power for homes and for schools in the sun! '')"

definition demo_fetch :: "string \<Rightarrow> string option" where
  "demo_fetch url =
     (if url \<in> set [''https://a.example'', ''https://c.example'', ''https://d.example'',
                      ''https://e.example'']
      then Some demo_page
      else if url = ''https://short.example'' then Some ''Too short!''
      else None)"

definition demo_env :: env where
  "demo_env = \<lparr> nlp_of = demo_nlp,
                 fp_of = exact_target,
                 url_q = demo_url_q,
                 fetch = demo_fetch,
                 soup_text = (\<lambda>page. page),
                 soup_title = (\<lambda>page. None),
                 search = (\<lambda>query. []),
                 comparison = (\<lambda>query. False),
                 set_order = (\<lambda>domains. domains),
                 llm = (\<lambda>provider key system user. (None, 0)) \<rparr>"

definition bracket_query :: string where
  "bracket_query = ''http://[?'' @ replicate 200 CHR ''a''"

definition long_q_query :: string where
  "long_q_query = ''https://example.com/page?q='' @ replicate 160 CHR ''z''"

definition demo_urls :: "string list" where
  "demo_urls = [''https://a.example'', ''https://short.example'', ''https://down.example'',
                ''https://c.example'', ''https://d.example'', ''https://e.example'']"



text \<open>
  Requests: the model information that \<open>main\<close> builds (provider, model and the key under
  two names), a page of 248 characters, a context of 61 characters, a provider that
  raises after two and a half seconds, and one that answers after two.
\<close>

definition demo_info :: model_info where
  "demo_info = \<lparr> mi_provider = Some ''openai'', mi_api_key = Some ''sk-demo'',
                  mi_apiKey = Some ''sk-demo'', mi_API_KEY = None, mi_api_dash_key = None,
                  mi_isQuestion = None, mi_originalQuery = None, mi_isAboutLinks = None,
                  mi_additionalContexts = None, mi_more = True \<rparr>"

definition solar_page :: page_content where
  "solar_page = \<lparr> p_htmlContent = None, p_content = Some demo_page, p_title = Some ''Solar'',
                   p_url = Some ''https://a.example'', p_more = False \<rparr>"


definition down_env :: env where
  "down_env = demo_env \<lparr> llm := (\<lambda>provider key system user. (None, 5 / 2)) \<rparr>"



section \<open>Properties of the token estimator\<close>

lemma length_truncation_marker: "length truncation_marker = 29"
  by (simp add: truncation_marker_def)

lemma float_close_exact: "float_close exact_target"
  by (simp add: float_close_def)

lemma estimate_tokens_nonneg: "0 \<le> estimate_tokens text"
  by (simp add: estimate_tokens_def pos_imp_zdiv_nonneg_iff)

lemma estimate_tokens_length: "estimate_tokens text = int (length text) div 4"
  by (simp add: estimate_tokens_def)

lemma truncate_fits:
  "estimate_tokens text \<le> k \<Longrightarrow> truncate_content_by_tokens fp text k = Some text"
  by (simp add: truncate_content_by_tokens_def Let_def)

text \<open>
  The exact target stays below \<open>4 * k - 26\<close> characters once the limit is at least 100
  tokens: the text has at most \<open>4 * e + 3\<close> characters and \<open>k < e\<close>, so the target is
  below \<open>3.6 * k + 2.7\<close>.
\<close>

lemma exact_target_bound:
  assumes k: "100 \<le> k" and e: "k < e" and n: "int n \<le> 4 * e + 3"
  shows "exact_target n k e \<le> 4 * k - 27"
proof -
  let ?q = "(int n * 9 * k) div (10 * e)"
  have epos: "0 < e" using k e by arith
  have q: "10 * e * ?q \<le> int n * 9 * k"
  proof -
    have "(10 * e) * ((int n * 9 * k) div (10 * e)) + (int n * 9 * k) mod (10 * e) = int n * 9 * k"
      by (rule mult_div_mod_eq)
    moreover have "0 \<le> (int n * 9 * k) mod (10 * e)"
      using epos by simp
    ultimately show ?thesis by linarith
  qed
  have "int n * 9 * k \<le> (4 * e + 3) * 9 * k"
    using n k by (intro mult_right_mono) auto
  hence up: "10 * e * ?q \<le> 36 * e * k + 27 * k"
    using q by (simp add: algebra_simps)
  have "\<not> 4 * k - 26 \<le> ?q"
  proof
    assume a: "4 * k - 26 \<le> ?q"
    have "10 * e * (4 * k - 26) \<le> 10 * e * ?q"
      using a epos by (intro mult_left_mono) auto
    hence "40 * e * k - 260 * e \<le> 36 * e * k + 27 * k"
      using up by (simp add: algebra_simps)
    hence "4 * (e * k) \<le> 260 * e + 27 * k" by (simp add: algebra_simps)
    moreover have "27 * k < 27 * e" using e by simp
    ultimately have "4 * (e * k) < 287 * e" by arith
    hence "e * (4 * k) < e * 287" by (simp add: algebra_simps)
    hence "4 * k < 287" using epos by (simp only: mult_less_cancel_left_pos)
    thus False using k by arith
  qed
  thus ?thesis using k by (simp add: exact_target_def)
qed

text \<open>
  A text over the limit is cut to a prefix of at most \<open>4 * k - 26\<close> characters, shorter
  than the text, followed by the marker.
\<close>

lemma truncate_over:
  assumes fp: "float_close fp" and k: "100 \<le> k" and over: "k < estimate_tokens text"
  shows "\<exists>n. truncate_content_by_tokens fp text k = Some (take n text @ truncation_marker)
           \<and> int n \<le> 4 * k - 26 \<and> int n + 29 < int (length text)"
proof -
  let ?e = "estimate_tokens text"
  let ?t = "fp (length text) k ?e"
  have ne: "text \<noteq> []" using over k by (auto simp: estimate_tokens_def)
  have e: "?e = int (length text) div 4" by (rule estimate_tokens_length)
  have epos: "0 < ?e" using over k by arith
  have len: "int (length text) \<le> 4 * ?e + 3" "4 * ?e \<le> int (length text)"
    unfolding e by arith+
  have "\<bar>?t - exact_target (length text) k ?e\<bar> \<le> 1"
    using fp epos by (simp add: float_close_def)
  moreover have "exact_target (length text) k ?e \<le> 4 * k - 27"
    using k over len(1) by (rule exact_target_bound)
  ultimately have t: "?t \<le> 4 * k - 26" by arith
  show ?thesis
  proof (cases "?t < 100")
    case True
    hence "truncate_content_by_tokens fp text k = Some (take 100 text @ truncation_marker)"
      using ne over epos by (simp add: truncate_content_by_tokens_def Let_def)
    moreover have "int (100::nat) \<le> 4 * k - 26" using k by simp
    moreover have "int (100::nat) + 29 < int (length text)" using len(2) over k by simp
    ultimately show ?thesis by blast
  next
    case False
    hence "truncate_content_by_tokens fp text k = Some (take (nat ?t) text @ truncation_marker)"
      using ne over epos by (simp add: truncate_content_by_tokens_def Let_def)
    moreover have "int (nat ?t) \<le> 4 * k - 26" using t False by simp
    moreover have "int (nat ?t) + 29 < int (length text)" using t False len(2) over by simp
    ultimately show ?thesis by blast
  qed
qed

lemma estimate_tokens_cut:
  assumes "int n \<le> 4 * k - 26"
  shows "estimate_tokens (take n text @ truncation_marker) \<le> k"
proof -
  have "int (length (take n text @ truncation_marker)) \<le> int n + 29"
    by (simp add: length_truncation_marker)
  hence "int (length (take n text @ truncation_marker)) div 4 \<le> k"
    using assms by arith
  thus ?thesis by (simp add: estimate_tokens_length)
qed

lemma truncate_bounded:
  assumes "float_close fp" and "100 \<le> k"
  shows "\<exists>r. truncate_content_by_tokens fp text k = Some r \<and> estimate_tokens r \<le> k"
proof (cases "estimate_tokens text \<le> k")
  case True
  thus ?thesis by (simp add: truncate_fits)
next
  case False
  hence "k < estimate_tokens text" by simp
  from truncate_over [OF assms this] obtain n where
    "truncate_content_by_tokens fp text k = Some (take n text @ truncation_marker)"
    "int n \<le> 4 * k - 26"
    by blast
  thus ?thesis by (simp add: estimate_tokens_cut)
qed

text \<open>
  \<^bold>\<open>C7.\<close> For every text \<open>T\<close> and every limit \<open>k\<close> of at least 100 tokens, truncation
  returns a text whose estimate is at most \<open>k\<close>. The text comes back unchanged when its
  estimate is within the limit; otherwise the result is strictly shorter than \<open>T\<close> and
  is a prefix of \<open>T\<close> followed by the truncation marker: the marker is appended exactly
  when the text was shortened.
\<close>

theorem truncate_within_limit:
  assumes "float_close fp" and "100 \<le> k"
  shows "\<exists>r. truncate_content_by_tokens fp T k = Some r
           \<and> estimate_tokens r \<le> k
           \<and> (if estimate_tokens T \<le> k then r = T
               else length r < length T \<and> (\<exists>n. r = take n T @ truncation_marker))"
proof (cases "estimate_tokens T \<le> k")
  case True
  thus ?thesis by (simp add: truncate_fits)
next
  case False
  hence "k < estimate_tokens T" by simp
  from truncate_over [OF assms this] obtain n where
    r: "truncate_content_by_tokens fp T k = Some (take n T @ truncation_marker)"
    and n: "int n \<le> 4 * k - 26" and s: "int n + 29 < int (length T)"
    by blast
  have "estimate_tokens (take n T @ truncation_marker) \<le> k"
    using n by (rule estimate_tokens_cut)
  moreover have "length (take n T @ truncation_marker) < length T"
    using s by (simp add: length_truncation_marker)
  ultimately show ?thesis using r False by auto
qed

theorem truncate_within_limit_witness:
  "float_close exact_target \<and> (100::int) \<le> 100
   \<and> truncate_content_by_tokens exact_target (replicate 500 CHR ''a'') 100
       = Some (replicate 360 CHR ''a'' @ truncation_marker)
   \<and> estimate_tokens (replicate 360 CHR ''a'' @ truncation_marker) = 97
   \<and> estimate_tokens (replicate 500 CHR ''a'') = 125"
proof -
  have r: "truncate_content_by_tokens exact_target (replicate 500 CHR ''a'') 100
       = Some (replicate 360 CHR ''a'' @ truncation_marker)"
    by (simp add: truncate_content_by_tokens_def estimate_tokens_def exact_target_def Let_def)
  have "\<exists>r. truncate_content_by_tokens exact_target (replicate 500 CHR ''a'') 100 = Some r
          \<and> estimate_tokens r \<le> 100
          \<and> (if estimate_tokens (replicate 500 CHR ''a'') \<le> 100 then r = replicate 500 CHR ''a''
              else length r < length (replicate 500 CHR ''a'')
                 \<and> (\<exists>n. r = take n (replicate 500 CHR ''a'') @ truncation_marker))"
    using float_close_exact by (rule truncate_within_limit) simp
  thus ?thesis
    using r by (simp add: float_close_exact estimate_tokens_def length_truncation_marker)
qed

text \<open>
  \<^bold>\<open>C8.\<close> Truncation is not idempotent for every limit. With the limit 1, the eight
  characters \<open>abcdefgh\<close> are estimated at 2 tokens, the target length is
  \<open>int(8 * 0.45) = 3\<close>, below 100, and the text comes back whole with the marker
  appended: 37 characters, 9 tokens, still over the limit. Truncating again gives
  \<open>int(37 * 0.1) = 3\<close> and appends a second marker.
\<close>

theorem truncate_not_idempotent:
  "truncate_content_by_tokens exact_target ''abcdefgh'' 1
     = Some ''abcdefgh... [truncated due to length]''
   \<and> truncate_content_by_tokens exact_target ''abcdefgh... [truncated due to length]'' 1
     = Some ''abcdefgh... [truncated due to length]... [truncated due to length]''
   \<and> ''abcdefgh... [truncated due to length]... [truncated due to length]''
     \<noteq> ''abcdefgh... [truncated due to length]''"
  by (simp add: truncate_content_by_tokens_def estimate_tokens_def exact_target_def
      truncation_marker_def Let_def)

text \<open>
  \<^bold>\<open>C8, as amended.\<close> For every text \<open>t\<close> and every limit \<open>n\<close> of at least 100 tokens,
  truncating the truncated text changes nothing:
  \<open>truncate(truncate(t, n), n) = truncate(t, n)\<close>.
\<close>

theorem truncate_idempotent_from_100:
  assumes "float_close fp" and "100 \<le> n"
  shows "\<exists>r. truncate_content_by_tokens fp t n = Some r
           \<and> truncate_content_by_tokens fp r n = Some r"
proof -
  from truncate_bounded [OF assms] obtain r where
    "truncate_content_by_tokens fp t n = Some r" "estimate_tokens r \<le> n"
    by blast
  thus ?thesis by (simp add: truncate_fits)
qed

theorem truncate_idempotent_from_100_witness:
  "float_close exact_target \<and> (100::int) \<le> 100
   \<and> truncate_content_by_tokens exact_target (replicate 500 CHR ''b'') 100
       = Some (replicate 360 CHR ''b'' @ truncation_marker)
   \<and> truncate_content_by_tokens exact_target (replicate 360 CHR ''b'' @ truncation_marker) 100
       = Some (replicate 360 CHR ''b'' @ truncation_marker)"
proof -
  have r: "truncate_content_by_tokens exact_target (replicate 500 CHR ''b'') 100
       = Some (replicate 360 CHR ''b'' @ truncation_marker)"
    by (simp add: truncate_content_by_tokens_def estimate_tokens_def exact_target_def Let_def)
  have "\<exists>r. truncate_content_by_tokens exact_target (replicate 500 CHR ''b'') 100 = Some r
          \<and> truncate_content_by_tokens exact_target r 100 = Some r"
    using float_close_exact by (rule truncate_idempotent_from_100) simp
  thus ?thesis using r by (simp add: float_close_exact)
qed

section \<open>Properties of the summarizer\<close>

text \<open>
  \<^bold>\<open>C10.\<close> A text of fewer than 100 characters is returned unchanged, whatever the
  requested sentence count and however many sentences it has: the tokenizers are not
  consulted.
\<close>

theorem summarize_text_short:
  assumes "length text < 100"
  shows "summarize_text nl text num_sentences = text"
  using assms by (simp add: summarize_text_def)

theorem summarize_text_short_witness:
  "length farm_text < 100
   \<and> sent_tokenize demo_nlp farm_text
       = Some [''Cats purr!'', ''Dogs bark!'', ''Birds sing!'', ''Fish swim!'', ''Cows moo!'',
               ''Pigs oink!'']
   \<and> summarize_text demo_nlp farm_text 5 = farm_text"
proof -
  have short: "length farm_text < 100"
    by (simp add: farm_text_def)
  have "sent_tokenize demo_nlp farm_text
       = Some [''Cats purr!'', ''Dogs bark!'', ''Birds sing!'', ''Fish swim!'', ''Cows moo!'',
               ''Pigs oink!'']"
    by code_simp
  thus ?thesis
    using short summarize_text_short [OF short, of demo_nlp 5] by simp
qed

subsection \<open>The scored sentences\<close>

lemma score_sentences_Cons:
  assumes "score_sentences nl ws i (x # xs) = Some scores"
  shows "\<exists>words rest. word_tokenize nl (lower x) = Some words
           \<and> score_sentences nl ws (Suc i) xs = Some rest
           \<and> scores = (if sentence_hits ws words = [] then rest
                       else (i, sum_list (map (count_list ws) (sentence_hits ws words))) # rest)"
proof (cases "word_tokenize nl (lower x)")
  case None
  with assms show ?thesis by simp
next
  case (Some words)
  show ?thesis
  proof (cases "score_sentences nl ws (Suc i) xs")
    case None
    with assms Some show ?thesis by simp
  next
    case (Some rest)
    with assms \<open>word_tokenize nl (lower x) = Some words\<close> show ?thesis
      by (simp add: Let_def split: if_splits)
  qed
qed

lemma score_sentences_range:
  "score_sentences nl ws i ss = Some scores \<Longrightarrow> (j, s) \<in> set scores
     \<Longrightarrow> i \<le> j \<and> j < i + length ss"
proof (induction ss arbitrary: i scores)
  case Nil
  thus ?case by simp
next
  case (Cons x xs)
  from Cons.prems(1) obtain words rest where
    w: "word_tokenize nl (lower x) = Some words"
    and r: "score_sentences nl ws (Suc i) xs = Some rest"
    and sc: "scores = (if sentence_hits ws words = [] then rest
                       else (i, sum_list (map (count_list ws) (sentence_hits ws words))) # rest)"
    using score_sentences_Cons by blast
  show ?case
  proof (cases "(j, s) \<in> set rest")
    case True
    from Cons.IH [OF r True] show ?thesis by simp
  next
    case False
    with Cons.prems(2) sc have "j = i" by (auto split: if_splits)
    thus ?thesis by simp
  qed
qed

lemma score_sentences_sorted:
  "score_sentences nl ws i ss = Some scores \<Longrightarrow> sorted_wrt (<) (map fst scores)"
proof (induction ss arbitrary: i scores)
  case Nil
  thus ?case by simp
next
  case (Cons x xs)
  from Cons.prems(1) obtain words rest where
    r: "score_sentences nl ws (Suc i) xs = Some rest"
    and sc: "scores = (if sentence_hits ws words = [] then rest
                       else (i, sum_list (map (count_list ws) (sentence_hits ws words))) # rest)"
    using score_sentences_Cons by blast
  have "sorted_wrt (<) (map fst rest)" using Cons.IH [OF r] .
  moreover have "\<forall>p \<in> set rest. i < fst p"
    using score_sentences_range [OF r] by fastforce
  ultimately show ?case using sc by auto
qed

lemma score_sentences_total:
  "\<forall>s \<in> set ss. word_tokenize nl (lower s) \<noteq> None
     \<Longrightarrow> \<exists>scores. score_sentences nl ws i ss = Some scores"
proof (induction ss arbitrary: i)
  case Nil
  show ?case by simp
next
  case (Cons x xs)
  from Cons.prems obtain words where w: "word_tokenize nl (lower x) = Some words"
    by auto
  from Cons.prems have "\<forall>s \<in> set xs. word_tokenize nl (lower s) \<noteq> None"
    by simp
  from Cons.IH [OF this] obtain rest where "score_sentences nl ws (Suc i) xs = Some rest"
    by blast
  with w show ?case by (simp add: Let_def)
qed

lemma score_sentences_entry:
  "score_sentences nl ws i ss = Some scores \<Longrightarrow> (k, s) \<in> set scores
     \<Longrightarrow> i \<le> k \<and> k < i + length ss \<and> has_scored_word nl ws (ss ! (k - i))
         \<and> s = sentence_score nl ws (ss ! (k - i))"
proof (induction ss arbitrary: i scores)
  case Nil
  thus ?case by simp
next
  case (Cons x xs)
  from Cons.prems(1) obtain words rest where
    w: "word_tokenize nl (lower x) = Some words"
    and r: "score_sentences nl ws (Suc i) xs = Some rest"
    and sc: "scores = (if sentence_hits ws words = [] then rest
                       else (i, sum_list (map (count_list ws) (sentence_hits ws words))) # rest)"
    using score_sentences_Cons by blast
  show ?case
  proof (cases "(k, s) \<in> set rest")
    case True
    from Cons.IH [OF r True] have ih: "Suc i \<le> k" "k < Suc i + length xs"
      "has_scored_word nl ws (xs ! (k - Suc i))" "s = sentence_score nl ws (xs ! (k - Suc i))"
      by simp_all
    from ih(1) have "(x # xs) ! (k - i) = xs ! (k - Suc i)"
      by (simp add: nth_Cons')
    with ih show ?thesis by simp
  next
    case False
    with Cons.prems(2) sc have "k = i" "sentence_hits ws words \<noteq> []"
      "s = sum_list (map (count_list ws) (sentence_hits ws words))"
      by (auto split: if_splits)
    thus ?thesis using w by (simp add: has_scored_word_def sentence_score_def)
  qed
qed

lemma score_sentences_has_entry:
  "score_sentences nl ws i ss = Some scores \<Longrightarrow> j < length ss
     \<Longrightarrow> has_scored_word nl ws (ss ! j)
     \<Longrightarrow> (i + j, sentence_score nl ws (ss ! j)) \<in> set scores"
proof (induction ss arbitrary: i j scores)
  case Nil
  thus ?case by simp
next
  case (Cons x xs)
  from Cons.prems(1) obtain words rest where
    w: "word_tokenize nl (lower x) = Some words"
    and r: "score_sentences nl ws (Suc i) xs = Some rest"
    and sc: "scores = (if sentence_hits ws words = [] then rest
                       else (i, sum_list (map (count_list ws) (sentence_hits ws words))) # rest)"
    using score_sentences_Cons by blast
  show ?case
  proof (cases j)
    case 0
    with Cons.prems(3) w have "sentence_hits ws words \<noteq> []"
      by (simp add: has_scored_word_def)
    thus ?thesis using sc w 0 by (simp add: sentence_score_def)
  next
    case (Suc j')
    with Cons.prems have "j' < length xs" "has_scored_word nl ws (xs ! j')"
      by simp_all
    from Cons.IH [OF r this] have "(Suc i + j', sentence_score nl ws (xs ! j')) \<in> set rest" .
    thus ?thesis using sc Suc by simp
  qed
qed

lemma score_sentences_positions:
  assumes "score_sentences nl ws 0 ss = Some scores"
  shows "fst ` set scores = set (scored_positions nl ws ss)"
proof (intro equalityI subsetI)
  fix k assume "k \<in> fst ` set scores"
  then obtain s where "(k, s) \<in> set scores" by auto
  from score_sentences_entry [OF assms this]
  show "k \<in> set (scored_positions nl ws ss)"
    by (simp add: scored_positions_def)
next
  fix k assume "k \<in> set (scored_positions nl ws ss)"
  hence "k < length ss" "has_scored_word nl ws (ss ! k)"
    by (simp_all add: scored_positions_def)
  from score_sentences_has_entry [OF assms this]
  show "k \<in> fst ` set scores" by force
qed

lemma sorted_scored_positions: "sorted_wrt (<) (scored_positions nl ws ss)"
  unfolding scored_positions_def by (rule sorted_wrt_filter) simp

lemma length_scored_positions:
  assumes "score_sentences nl ws 0 ss = Some scores"
  shows "length scores = length (scored_positions nl ws ss)"
proof -
  have "sorted_wrt (<) (map fst scores)"
    using assms by (rule score_sentences_sorted)
  hence d: "distinct (map fst scores)"
    by (simp add: strict_sorted_iff)
  have d': "distinct (scored_positions nl ws ss)"
    using sorted_scored_positions [of nl ws ss] by (simp add: strict_sorted_iff)
  have "length scores = length (map fst scores)" by simp
  also have "\<dots> = card (set (map fst scores))"
    using d by (simp only: distinct_card)
  also have "set (map fst scores) = set (scored_positions nl ws ss)"
    using score_sentences_positions [OF assms] by simp
  also have "card \<dots> = length (scored_positions nl ws ss)"
    using d' by (rule distinct_card)
  finally show ?thesis .
qed

subsection \<open>The selection\<close>

lemma length_top_indices:
  "length (top_indices n scores) = min n (length scores)"
  by (simp add: top_indices_def nlargest_def min.commute)

lemma set_top_indices:
  "set (top_indices n scores) \<subseteq> fst ` set scores"
proof -
  have "set (nlargest n scores) \<subseteq> set scores"
    unfolding nlargest_def using set_take_subset [of n "sort_key (\<lambda>x. - int (snd x)) scores"]
    by simp
  thus ?thesis by (auto simp: top_indices_def)
qed

lemma distinct_fst_sort_key:
  "distinct (map fst xs) \<Longrightarrow> distinct (map fst (sort_key k xs))"
  by (simp add: distinct_map)

lemma sorted_top_indices:
  assumes "distinct (map fst scores)"
  shows "sorted_wrt (<) (top_indices n scores)"
proof -
  let ?top = "nlargest n scores"
  have "distinct (map fst (sort_key (\<lambda>x. - int (snd x)) scores))"
    using assms by (rule distinct_fst_sort_key)
  hence "distinct (take n (map fst (sort_key (\<lambda>x. - int (snd x)) scores)))"
    by (rule distinct_take)
  hence "distinct (map fst ?top)"
    by (simp add: nlargest_def take_map)
  hence "distinct (map fst (sort_key fst ?top))"
    by (rule distinct_fst_sort_key)
  moreover have "sorted (map fst (sort_key fst ?top))"
    by (rule sorted_sort_key)
  ultimately show ?thesis
    by (simp add: top_indices_def strict_sorted_iff)
qed

lemma nlargest_beats_rest:
  assumes inc: "sorted_wrt (<) (map fst scores)"
    and a: "a \<in> set (nlargest n scores)"
    and b: "b \<in> set scores" "b \<notin> set (nlargest n scores)"
  shows "snd b < snd a \<or> (snd b = snd a \<and> fst a < fst b)"
proof -
  let ?f = "\<lambda>x::nat \<times> nat. - int (snd x)"
  let ?ys = "sort_key ?f scores"
  have split: "?ys = take n ?ys @ drop n ?ys" by simp
  have a': "a \<in> set (take n ?ys)" using a by (simp add: nlargest_def)
  have "b \<in> set ?ys" using b(1) by simp
  hence "b \<in> set (take n ?ys) \<or> b \<in> set (drop n ?ys)"
    by (metis Un_iff append_take_drop_id set_append)
  hence b': "b \<in> set (drop n ?ys)" using b(2) by (simp add: nlargest_def)
  have "sorted (map ?f ?ys)" by (rule sorted_sort_key)
  hence "sorted (map ?f (take n ?ys) @ map ?f (drop n ?ys))"
    by (metis append_take_drop_id map_append)
  hence "\<forall>x \<in> set (map ?f (take n ?ys)). \<forall>y \<in> set (map ?f (drop n ?ys)). x \<le> y"
    by (simp add: sorted_append)
  with a' b' have le: "?f a \<le> ?f b" by simp
  show ?thesis
  proof (cases "snd b = snd a")
    case False
    with le show ?thesis by simp
  next
    case True
    let ?P = "\<lambda>y. ?f y = ?f a"
    let ?R = "\<lambda>x y::nat \<times> nat. fst x < fst y"
    have "sorted_wrt ?R scores" using inc by (simp add: sorted_wrt_map)
    hence "sorted_wrt ?R (filter ?P scores)" by (rule sorted_wrt_filter)
    hence "sorted_wrt ?R (filter ?P ?ys)" by (simp only: sort_key_stable)
    hence "sorted_wrt ?R (filter ?P (take n ?ys) @ filter ?P (drop n ?ys))"
      by (metis append_take_drop_id filter_append)
    hence "\<forall>x \<in> set (filter ?P (take n ?ys)). \<forall>y \<in> set (filter ?P (drop n ?ys)). ?R x y"
      by (simp add: sorted_wrt_append)
    moreover have "a \<in> set (filter ?P (take n ?ys))" using a' by simp
    moreover have "b \<in> set (filter ?P (drop n ?ys))" using b' True by simp
    ultimately have "fst a < fst b" by blast
    with True show ?thesis by simp
  qed
qed

lemma set_top_indices_eq: "set (top_indices n scores) = fst ` set (nlargest n scores)"
  by (simp add: top_indices_def)

lemma take_as_nth:
  "n \<le> length xs \<Longrightarrow> take n xs = map (\<lambda>i. xs ! i) [0..<n]"
  by (simp add: list_eq_iff_nth_eq)

text \<open>
  \<^bold>\<open>C2.\<close> The claim fails in two ways. \<open>farm_text\<close> has six sentences and 65
  characters: it is under the length guard and comes back whole, six sentences for a
  target of five. \<open>cats_text\<close> has nine sentences and 129 characters, and only its first
  sentence has a word that is not a stop word: only that sentence is scored, and the
  summary is that one sentence.
\<close>

theorem summarize_text_not_exactly_n:
  "sent_tokenize demo_nlp farm_text
     = Some [''Cats purr!'', ''Dogs bark!'', ''Birds sing!'', ''Fish swim!'', ''Cows moo!'',
             ''Pigs oink!'']
   \<and> summarize_text demo_nlp farm_text 5
     = ''Cats purr! Dogs bark! Birds sing! Fish swim! Cows moo! Pigs oink!''
   \<and> sent_tokenize demo_nlp cats_text
     = Some [''Cats purr loudly!'', ''Why is it so?'', ''Why was it so?'', ''Why is that so?'',
             ''Why was that so?'', ''Who is it?'', ''Who was it?'', ''What is it?'',
             ''What was that?'']
   \<and> length cats_text = 129
   \<and> summarize_text demo_nlp cats_text 5 = ''Cats purr loudly!''"
  by code_simp

text \<open>
  \<^bold>\<open>C2, as amended.\<close> For every text \<open>T\<close> of at least 100 characters with more than \<open>N\<close>
  sentences on which the tokenizers do not fail, \<open>summarize_text(T, N)\<close> is the sentences
  of \<open>T\<close> at strictly increasing positions, joined by single spaces: sentences of \<open>T\<close>, in
  document order. When no sentence has a counted word, they are the first \<open>N\<close> sentences.
  Otherwise they are sentences that have a counted word, and only such: all of them when
  they are at most \<open>N\<close>, and else the \<open>N\<close> of highest score, a tie going to the earlier
  sentence. The score of a sentence is the sum of the frequencies of its counted words.
\<close>

theorem summarize_text_selection:
  assumes long: "100 \<le> length text"
    and sents: "sent_tokenize nl text = Some sentences"
    and more: "num_sentences < length sentences"
    and words: "word_tokenize nl (lower text) = Some all_words"
    and each: "\<forall>s \<in> set sentences. word_tokenize nl (lower s) \<noteq> None"
  shows "\<exists>idxs. summarize_text nl text num_sentences
                  = join '' '' (map (\<lambda>i. sentences ! i) idxs)
           \<and> sorted_wrt (<) idxs
           \<and> (\<forall>i \<in> set idxs. i < length sentences)
           \<and> (let scored = scored_positions nl (keep_words nl all_words) sentences;
                   score = (\<lambda>i. sentence_score nl (keep_words nl all_words) (sentences ! i))
               in if scored = [] then idxs = [0..<num_sentences]
                  else set idxs \<subseteq> set scored
                     \<and> length idxs = min num_sentences (length scored)
                     \<and> (length scored \<le> num_sentences \<longrightarrow> idxs = scored)
                     \<and> (\<forall>i \<in> set idxs. \<forall>j \<in> set scored. j \<notin> set idxs
                           \<longrightarrow> score j < score i \<or> (score j = score i \<and> i < j)))"
proof -
  let ?ws = "keep_words nl all_words"
  let ?scored = "scored_positions nl ?ws sentences"
  let ?score = "\<lambda>i. sentence_score nl ?ws (sentences ! i)"
  from score_sentences_total [OF each] obtain scores where
    sc: "score_sentences nl ?ws 0 sentences = Some scores"
    by blast
  have len: "length scores = length ?scored"
    using sc by (rule length_scored_positions)
  have pos: "fst ` set scores = set ?scored"
    using sc by (rule score_sentences_positions)
  have inc: "sorted_wrt (<) (map fst scores)"
    using sc by (rule score_sentences_sorted)
  have entry: "s = ?score k" if "(k, s) \<in> set scores" for k s
    using score_sentences_entry [OF sc that] by simp
  have ne: "text \<noteq> []" using long by auto
  show ?thesis
  proof (cases "scores = []")
    case True
    have "summarize_text nl text num_sentences = join '' '' (take num_sentences sentences)"
      using long ne sents more words sc True
      by (simp add: summarize_text_def summarize_sentences_def)
    also have "take num_sentences sentences = map (\<lambda>i. sentences ! i) [0..<num_sentences]"
      using more by (simp add: take_as_nth)
    finally have "summarize_text nl text num_sentences
        = join '' '' (map (\<lambda>i. sentences ! i) [0..<num_sentences])" .
    moreover have "sorted_wrt (<) [0..<num_sentences]"
      by simp
    moreover have "\<forall>i \<in> set [0..<num_sentences]. i < length sentences"
      using more by simp
    moreover have "?scored = []"
      using True len by simp
    ultimately show ?thesis by (intro exI [of _ "[0..<num_sentences]"]) (simp add: Let_def)
  next
    case False
    let ?idxs = "top_indices num_sentences scores"
    have nonempty: "?scored \<noteq> []" using False len by auto
    have summary: "summarize_text nl text num_sentences
        = join '' '' (map (\<lambda>i. sentences ! i) ?idxs)"
      using long ne sents more words sc False
      by (simp add: summarize_text_def summarize_sentences_def)
    have sorted_idxs: "sorted_wrt (<) ?idxs"
    proof (rule sorted_top_indices)
      show "distinct (map fst scores)"
        using inc by (simp add: strict_sorted_iff)
    qed
    have sub: "set ?idxs \<subseteq> set ?scored"
      using set_top_indices [of num_sentences scores] pos by simp
    have bound: "\<forall>i \<in> set ?idxs. i < length sentences"
      using sub by (auto simp: scored_positions_def)
    have length_idxs: "length ?idxs = min num_sentences (length ?scored)"
      using len by (simp add: length_top_indices)
    have all: "?idxs = ?scored" if few: "length ?scored \<le> num_sentences"
    proof (rule sorted_distinct_set_unique)
      show "sorted ?idxs" "distinct ?idxs"
        using sorted_idxs by (simp_all add: strict_sorted_iff)
      show "sorted ?scored" and d: "distinct ?scored"
        using sorted_scored_positions [of nl ?ws sentences] by (simp_all add: strict_sorted_iff)
      have "card (set ?idxs) = length ?idxs"
        using \<open>distinct ?idxs\<close> by (rule distinct_card)
      also have "\<dots> = length ?scored" using length_idxs few by simp
      also have "\<dots> = card (set ?scored)" using d by (simp only: distinct_card)
      finally have "card (set ?idxs) = card (set ?scored)" .
      with sub show "set ?idxs = set ?scored"
        by (simp add: card_subset_eq)
    qed
    have best: "?score j < ?score i \<or> (?score j = ?score i \<and> i < j)"
      if i: "i \<in> set ?idxs" and j: "j \<in> set ?scored" "j \<notin> set ?idxs" for i j
    proof -
      from i obtain s where a: "(i, s) \<in> set (nlargest num_sentences scores)"
        by (auto simp: set_top_indices_eq)
      have "set (nlargest num_sentences scores) \<subseteq> set scores"
        unfolding nlargest_def
        using set_take_subset [of num_sentences "sort_key (\<lambda>x. - int (snd x)) scores"] by simp
      with a have "(i, s) \<in> set scores" by blast
      hence s: "s = ?score i" by (rule entry)
      from j(1) pos obtain t where b: "(j, t) \<in> set scores" by force
      hence t: "t = ?score j" by (rule entry)
      have "(j, t) \<notin> set (nlargest num_sentences scores)"
        using j(2) by (force simp: set_top_indices_eq)
      from nlargest_beats_rest [OF inc a b this] show ?thesis
        using s t by simp
    qed
    show ?thesis
      using summary sorted_idxs bound nonempty sub length_idxs all best
      by (intro exI [of _ ?idxs]) (simp add: Let_def)
  qed
qed

theorem summarize_text_selection_witness:
  "100 \<le> length solar_text
   \<and> sent_tokenize demo_nlp solar_text
       = Some [''Solar panels make power!'', ''Is it so?'', ''Panels need sun!'',
               ''Power runs homes!'', ''Homes need power!'', ''Wind makes power too!'',
               ''Panels help homes!'']
   \<and> summarize_text demo_nlp solar_text 5
       = ''Solar panels make power! Panels need sun! Power runs homes! Homes need power! Panels help homes!''
   \<and> (\<exists>idxs. summarize_text demo_nlp solar_text 5
                = join '' '' (map (\<lambda>i. [''Solar panels make power!'', ''Is it so?'',
                     ''Panels need sun!'', ''Power runs homes!'', ''Homes need power!'',
                     ''Wind makes power too!'', ''Panels help homes!''] ! i) idxs)
          \<and> sorted_wrt (<) idxs \<and> length idxs = 5 \<and> set idxs \<subseteq> {0, 2, 3, 4, 5, 6})"
proof -
  let ?ss = "[''Solar panels make power!'', ''Is it so?'', ''Panels need sun!'',
              ''Power runs homes!'', ''Homes need power!'', ''Wind makes power too!'',
              ''Panels help homes!'']"
  have long: "100 \<le> length solar_text"
    by (simp add: solar_text_def)
  have sents: "sent_tokenize demo_nlp solar_text = Some ?ss"
    by code_simp
  have more: "5 < length ?ss"
    by simp
  have words: "word_tokenize demo_nlp (lower solar_text)
      = Some (split (pad_marks (lower solar_text)))"
    by (simp add: demo_nlp_def)
  have each: "\<forall>s \<in> set ?ss. word_tokenize demo_nlp (lower s) \<noteq> None"
    by (simp add: demo_nlp_def)
  have scored: "scored_positions demo_nlp
        (keep_words demo_nlp (split (pad_marks (lower solar_text)))) ?ss = [0, 2, 3, 4, 5, 6]"
    by code_simp
  have summary: "summarize_text demo_nlp solar_text 5
       = ''Solar panels make power! Panels need sun! Power runs homes! Homes need power! Panels help homes!''"
    by code_simp
  from summarize_text_selection [OF long sents more words each]
  obtain idxs where
    "summarize_text demo_nlp solar_text 5 = join '' '' (map (\<lambda>i. ?ss ! i) idxs)"
    "sorted_wrt (<) idxs"
    "(let scored = scored_positions demo_nlp
                     (keep_words demo_nlp (split (pad_marks (lower solar_text)))) ?ss;
          score = (\<lambda>i. sentence_score demo_nlp
                     (keep_words demo_nlp (split (pad_marks (lower solar_text)))) (?ss ! i))
      in if scored = [] then idxs = [0..<5]
         else set idxs \<subseteq> set scored
            \<and> length idxs = min 5 (length scored)
            \<and> (length scored \<le> 5 \<longrightarrow> idxs = scored)
            \<and> (\<forall>i \<in> set idxs. \<forall>j \<in> set scored. j \<notin> set idxs
                  \<longrightarrow> score j < score i \<or> (score j = score i \<and> i < j)))"
    by blast
  hence "\<exists>idxs. summarize_text demo_nlp solar_text 5 = join '' '' (map (\<lambda>i. ?ss ! i) idxs)
          \<and> sorted_wrt (<) idxs \<and> length idxs = 5 \<and> set idxs \<subseteq> {0, 2, 3, 4, 5, 6}"
    unfolding scored Let_def by (intro exI [of _ idxs]) simp
  thus ?thesis using long sents summary by blast
qed
section \<open>Properties of query cleaning\<close>

lemma contains_sublist: "contains sub s = sublist sub s"
  by (induction s) (auto simp: sublist_Cons_right)

lemma set_collapse_from:
  "set (collapse_from cls b s) \<subseteq> {c \<in> set s. \<not> cls c} \<union> {CHR '' ''}"
  by (induction s arbitrary: b) auto

lemma collapse_from_no_leading_space:
  "collapse_from is_space True s = x # xs \<Longrightarrow> \<not> is_space x"
  by (induction s) (auto split: if_splits)

lemma is_space_space: "is_space CHR '' ''"
  by (simp add: is_space_def code_point_def Let_def)

lemma collapse_from_no_double_space:
  "\<not> sublist ''  '' (collapse_from is_space b s)"
proof (induction s arbitrary: b)
  case Nil
  show ?case by simp
next
  case (Cons c cs)
  show ?case
  proof (cases "is_space c")
    case False
    hence "c \<noteq> CHR '' ''" using is_space_space by auto
    thus ?thesis using False Cons.IH [of False] by (simp add: sublist_Cons_right)
  next
    case True
    show ?thesis
    proof (cases b)
      case True
      thus ?thesis using \<open>is_space c\<close> Cons.IH [of True] by simp
    next
      case False
      have "\<not> prefix ''  '' (CHR '' '' # collapse_from is_space True cs)"
      proof
        assume "prefix ''  '' (CHR '' '' # collapse_from is_space True cs)"
        then obtain xs where "collapse_from is_space True cs = CHR '' '' # xs"
          by (auto simp: prefix_def)
        from collapse_from_no_leading_space [OF this] show False
          using is_space_space by simp
      qed
      thus ?thesis using False \<open>is_space c\<close> Cons.IH [of True]
        by (simp add: sublist_Cons_right)
    qed
  qed
qed

lemma sublist_strip: "sublist (strip s) s"
proof -
  have "sublist (dropWhile is_space (rev (dropWhile is_space s))) (rev (dropWhile is_space s))"
    by (rule sublist_dropWhile)
  hence "sublist (strip s) (dropWhile is_space s)"
    by (simp add: strip_def sublist_rev_left)
  moreover have "sublist (dropWhile is_space s) s"
    by (rule sublist_dropWhile)
  ultimately show ?thesis
    by (rule sublist_order.order.trans)
qed

lemma set_sublist: "sublist xs ys \<Longrightarrow> set xs \<subseteq> set ys"
  by (auto simp: sublist_def)

lemma sublist_take_normalize: "sublist (take n (normalize_query q)) (collapse_spaces (sub_special q))"
proof -
  have "sublist (take n (normalize_query q)) (normalize_query q)"
    by (rule sublist_take)
  moreover have "sublist (normalize_query q) (collapse_spaces (sub_special q))"
    unfolding normalize_query_def by (rule sublist_strip)
  ultimately show ?thesis
    by (rule sublist_order.order.trans)
qed

lemma normalize_query_chars:
  assumes "c \<in> set (take n (normalize_query q))"
  shows "is_word_char c \<or> c = CHR '' ''"
proof -
  have "c \<in> set (collapse_spaces (sub_special q))"
    using assms set_sublist [OF sublist_take_normalize] by blast
  hence "(c \<in> set (sub_special q) \<and> \<not> is_space c) \<or> c = CHR '' ''"
    using set_collapse_from [of is_space False "sub_special q"]
    by (auto simp: collapse_spaces_def)
  thus ?thesis by (auto simp: sub_special_def split: if_splits)
qed

lemma normalize_query_single_spaces:
  "\<not> contains ''  '' (take n (normalize_query q))"
proof
  assume "contains ''  '' (take n (normalize_query q))"
  hence "sublist ''  '' (take n (normalize_query q))"
    by (simp add: contains_sublist)
  hence "sublist ''  '' (collapse_spaces (sub_special q))"
    using sublist_take_normalize by (rule sublist_order.order.trans)
  thus False
    using collapse_from_no_double_space by (simp add: collapse_spaces_def)
qed

lemma clean_query_NoQ:
  assumes "\<not> looks_like_url query \<or> url_q e query = NoQ"
  shows "clean_query e query = take 150 (normalize_query query)"
  using assms by (auto simp: clean_query_def Let_def)

text \<open>
  \<^bold>\<open>C9.\<close> The claim has no place for the \<open>except\<close> branch. \<open>bracket_query\<close> is
  \<open>http://[?\<close> followed by 200 letters: it has a question mark and \<open>http://\<close>, \<open>urlparse\<close>
  raises on it, so it carries no \<open>q\<close> parameter, and \<open>clean_query\<close> returns it as it is,
  209 characters with its colon, slashes, bracket and question mark.
\<close>

theorem clean_query_raw_on_error:
  "looks_like_url bracket_query
   \<and> url_q demo_env bracket_query = Raises
   \<and> clean_query demo_env bracket_query = bracket_query
   \<and> length bracket_query = 209
   \<and> CHR ''['' \<in> set (clean_query demo_env bracket_query)
   \<and> \<not> is_word_char CHR ''[''"
  by code_simp

text \<open>
  \<^bold>\<open>C9, as amended.\<close> For every query that has no question mark or no \<open>http://\<close> or
  \<open>https://\<close> in it, or whose query string parses and has no \<open>q\<close> parameter, \<open>clean_query\<close>
  returns the first 150 characters of the query with every character that is neither a
  word character nor white space replaced by a space, the runs of white space
  collapsed to one space and the ends stripped: at most 150 characters, each a word
  character or a space, no two spaces in a row. When the parse yields a \<open>q\<close> parameter,
  its first value is returned as it is, whatever its length; when the parse raises, the
  query is returned as it is.
\<close>

theorem clean_query_result:
  "(\<not> looks_like_url query \<or> url_q e query = NoQ \<longrightarrow>
       clean_query e query = take 150 (strip (collapse_spaces (sub_special query)))
       \<and> length (clean_query e query) \<le> 150
       \<and> (\<forall>c \<in> set (clean_query e query). is_word_char c \<or> c = CHR '' '')
       \<and> \<not> contains ''  '' (clean_query e query))
   \<and> (looks_like_url query \<and> url_q e query = Q v \<longrightarrow> clean_query e query = v)
   \<and> (looks_like_url query \<and> url_q e query = Raises \<longrightarrow> clean_query e query = query)"
proof (intro conjI impI)
  assume a: "\<not> looks_like_url query \<or> url_q e query = NoQ"
  have c: "clean_query e query = take 150 (normalize_query query)"
    using a by (rule clean_query_NoQ)
  show "clean_query e query = take 150 (strip (collapse_spaces (sub_special query)))"
    using c by (simp add: normalize_query_def)
  show "length (clean_query e query) \<le> 150"
    using c by simp
  show "\<forall>c \<in> set (clean_query e query). is_word_char c \<or> c = CHR '' ''"
    using c normalize_query_chars by simp
  show "\<not> contains ''  '' (clean_query e query)"
    using c normalize_query_single_spaces by simp
next
  assume "looks_like_url query \<and> url_q e query = Q v"
  thus "clean_query e query = v" by (simp add: clean_query_def)
next
  assume "looks_like_url query \<and> url_q e query = Raises"
  thus "clean_query e query = query" by (simp add: clean_query_def)
qed

theorem clean_query_result_witness:
  "\<not> looks_like_url ''What's  the weather-like in Paris,  France???''
   \<and> clean_query demo_env ''What's  the weather-like in Paris,  France???''
       = ''What s the weather like in Paris France''
   \<and> looks_like_url ''https://example.com/page?q=hello''
   \<and> url_q demo_env ''https://example.com/page?q=hello'' = Q ''hello''
   \<and> clean_query demo_env ''https://example.com/page?q=hello'' = ''hello''
   \<and> looks_like_url long_q_query
   \<and> url_q demo_env long_q_query = Q (replicate 160 CHR ''z'')
   \<and> length (clean_query demo_env long_q_query) = 160
   \<and> looks_like_url bracket_query
   \<and> url_q demo_env bracket_query = Raises
   \<and> length (clean_query demo_env bracket_query) = 209"
proof -
  have 1: "\<not> looks_like_url ''What's  the weather-like in Paris,  France???''"
    by code_simp
  have 2: "take 150 (strip (collapse_spaces (sub_special
              ''What's  the weather-like in Paris,  France???'')))
           = ''What s the weather like in Paris France''"
    by code_simp
  have 3: "looks_like_url ''https://example.com/page?q=hello''
           \<and> url_q demo_env ''https://example.com/page?q=hello'' = Q ''hello''"
    by code_simp
  have 4: "looks_like_url long_q_query
           \<and> url_q demo_env long_q_query = Q (replicate 160 CHR ''z'')"
    by code_simp
  have 5: "looks_like_url bracket_query \<and> url_q demo_env bracket_query = Raises"
    by code_simp
  have 6: "length bracket_query = 209"
    by (simp add: bracket_query_def)
  show ?thesis
    using 1 2 3 4 5 6
      clean_query_result [of "''What's  the weather-like in Paris,  France???''" demo_env "[]"]
      clean_query_result [of "''https://example.com/page?q=hello''" demo_env "''hello''"]
      clean_query_result [of long_q_query demo_env "replicate 160 CHR ''z''"]
      clean_query_result [of bracket_query demo_env "[]"]
    by simp
qed

section \<open>Properties of the evidence from addresses\<close>

lemma url_summary_Some:
  assumes "url_summary e url = Some item"
  shows "s_url item = url
         \<and> (\<exists>page. fetch e url = Some page \<and> 200 \<le> length (extract_text e page)
                \<and> s_summary item = summarize_text (nlp_of e) (extract_text e page) 5)"
  using assms
  by (auto simp: url_summary_def Let_def split: option.splits if_splits)

lemma map_filter_append:
  "List.map_filter f (xs @ ys) = List.map_filter f xs @ List.map_filter f ys"
  by (simp add: List.map_filter_def)

lemma map_filter_member:
  "y \<in> set (List.map_filter f xs) \<Longrightarrow> \<exists>x \<in> set xs. f x = Some y"
  by (auto simp: List.map_filter_def)

text \<open>
  The loop from any state: \<open>req\<close> are the addresses it requests. They are a prefix of the
  addresses left, the new summaries are those of the requests that succeed, and the loop
  requests nothing once it holds three summaries.
\<close>

lemma process_urls_from_requests:
  "process_urls_from e urls S F = (S', F') \<Longrightarrow>
     \<exists>req. F' = F @ req \<and> prefix req urls
        \<and> S' = S @ List.map_filter (url_summary e) req
        \<and> (3 \<le> length S \<longrightarrow> req = [])
        \<and> (length S \<le> 3 \<longrightarrow> length S' \<le> 3)
        \<and> (length S' < 3 \<longrightarrow> req = urls)
        \<and> (length S < 3 \<longrightarrow> length S' = 3 \<longrightarrow>
              req \<noteq> [] \<and> url_summary e (last req) = Some (last S'))"
proof (induction urls arbitrary: S F)
  case Nil
  hence "S' = S" "F' = F" by simp_all
  thus ?case by (intro exI [of _ "[]"]) (simp add: List.map_filter_simps)
next
  case (Cons url urls)
  show ?case
  proof (cases "3 \<le> length S")
    case True
    with Cons.prems have "S' = S" "F' = F" by simp_all
    thus ?thesis using True by (intro exI [of _ "[]"]) (simp add: List.map_filter_simps)
  next
    case False
    show ?thesis
    proof (cases "url_summary e url")
      case None
      with False Cons.prems have "process_urls_from e urls S (F @ [url]) = (S', F')"
        by simp
      from Cons.IH [OF this] obtain req where
        r: "F' = (F @ [url]) @ req" "prefix req urls"
           "S' = S @ List.map_filter (url_summary e) req"
           "length S \<le> 3 \<longrightarrow> length S' \<le> 3"
           "length S' < 3 \<longrightarrow> req = urls"
           "length S < 3 \<longrightarrow> length S' = 3 \<longrightarrow>
              req \<noteq> [] \<and> url_summary e (last req) = Some (last S')"
        by blast
      show ?thesis
        using r None False
        by (intro exI [of _ "url # req"]) (auto simp: List.map_filter_simps)
    next
      case (Some item)
      with False Cons.prems have "process_urls_from e urls (S @ [item]) (F @ [url]) = (S', F')"
        by simp
      from Cons.IH [OF this] obtain req where
        r: "F' = (F @ [url]) @ req" "prefix req urls"
           "S' = (S @ [item]) @ List.map_filter (url_summary e) req"
           "3 \<le> length (S @ [item]) \<longrightarrow> req = []"
           "length (S @ [item]) \<le> 3 \<longrightarrow> length S' \<le> 3"
           "length S' < 3 \<longrightarrow> req = urls"
           "length (S @ [item]) < 3 \<longrightarrow> length S' = 3 \<longrightarrow>
              req \<noteq> [] \<and> url_summary e (last req) = Some (last S')"
        by blast
      have last: "length S' = 3 \<longrightarrow> url_summary e (last (url # req)) = Some (last S')"
      proof (cases "length (S @ [item]) < 3")
        case True
        with r(7) show ?thesis by auto
      next
        case False
        hence "req = []" using r(4) by simp
        thus ?thesis using r(3) Some by (simp add: List.map_filter_simps)
      qed
      show ?thesis
        using r(1-3,5,6) last Some False
        by (intro exI [of _ "url # req"]) (auto simp: List.map_filter_simps)
    qed
  qed
qed

text \<open>
  \<^bold>\<open>C5.\<close> For every list of addresses, \<open>process_urls\<close> returns at most three items.
  Each comes from a page that was fetched and whose extracted text has at least 200
  characters. The addresses requested are a prefix of the list, the items are the
  summaries of the requests that succeeded, in that order, and when three items are
  returned the last request is the one that gave the third: no later address is
  requested. With fewer than three items every address was requested.
\<close>

theorem process_urls_stops_at_three:
  "(case process_urls_requests e urls query of
      (summaries, requested) \<Rightarrow>
        process_urls e urls query = summaries
        \<and> length summaries \<le> 3
        \<and> (\<forall>item \<in> set summaries.
              \<exists>page. fetch e (s_url item) = Some page \<and> 200 \<le> length (extract_text e page))
        \<and> prefix requested urls
        \<and> summaries = List.map_filter (url_summary e) requested
        \<and> (length summaries = 3 \<longrightarrow>
              requested \<noteq> [] \<and> url_summary e (last requested) = Some (last summaries))
        \<and> (length summaries < 3 \<longrightarrow> requested = urls))"
proof -
  obtain S' F' where run: "process_urls_from e urls [] [] = (S', F')"
    by (cases "process_urls_from e urls [] []")
  from process_urls_from_requests [OF run] obtain req where
    r: "F' = req" "prefix req urls" "S' = List.map_filter (url_summary e) req"
       "length S' \<le> 3" "length S' < 3 \<longrightarrow> req = urls"
       "length S' = 3 \<longrightarrow> req \<noteq> [] \<and> url_summary e (last req) = Some (last S')"
    by auto
  have pages: "\<forall>item \<in> set S'.
      \<exists>page. fetch e (s_url item) = Some page \<and> 200 \<le> length (extract_text e page)"
  proof
    fix item assume "item \<in> set S'"
    with r(3) obtain url where "url_summary e url = Some item"
      using map_filter_member by fastforce
    from url_summary_Some [OF this] show
      "\<exists>page. fetch e (s_url item) = Some page \<and> 200 \<le> length (extract_text e page)"
      by auto
  qed
  show ?thesis
    using run r pages by (simp add: process_urls_requests_def process_urls_def)
qed

theorem process_urls_stops_at_three_witness:
  "map s_url (process_urls demo_env demo_urls ''solar'')
     = [''https://a.example'', ''https://c.example'', ''https://d.example'']
   \<and> snd (process_urls_requests demo_env demo_urls ''solar'')
     = [''https://a.example'', ''https://short.example'', ''https://down.example'',
        ''https://c.example'', ''https://d.example'']
   \<and> fetch demo_env ''https://e.example'' = Some demo_page
   \<and> length (extract_text demo_env demo_page) = 247
   \<and> length (process_urls demo_env demo_urls ''solar'') \<le> 3"
proof -
  have 1: "(case process_urls_requests demo_env demo_urls ''solar'' of
              (summaries, requested) \<Rightarrow> (map s_url summaries, requested))
     = ([''https://a.example'', ''https://c.example'', ''https://d.example''],
        [''https://a.example'', ''https://short.example'', ''https://down.example'',
         ''https://c.example'', ''https://d.example''])"
    by code_simp
  have 3: "fetch demo_env ''https://e.example'' = Some demo_page"
    by (simp add: demo_env_def demo_fetch_def)
  have 4: "length (extract_text demo_env demo_page) = 247"
    by code_simp
  have 5: "length (process_urls demo_env demo_urls ''solar'') \<le> 3"
    using process_urls_stops_at_three [of demo_env demo_urls "''solar''"]
    by (simp split: prod.splits)
  show ?thesis
    using 1 3 4 5 by (simp add: process_urls_def split: prod.splits)
qed

section \<open>Properties of the prompt assembly\<close>

lemma truncate_defined:
  "0 < estimate_tokens text \<Longrightarrow> \<exists>r. truncate_content_by_tokens fp text k = Some r"
  by (simp add: truncate_content_by_tokens_def Let_def)






























section \<open>Properties of the pipeline\<close>

lemma final_check_defined:
  assumes "estimate_tokens system \<le> MAX_TOTAL_TOKENS"
  shows "\<exists>r. final_check e system user_prompt = Some r"
proof (cases "estimate_tokens system + estimate_tokens user_prompt > MAX_TOTAL_TOKENS")
  case True
  hence "0 < estimate_tokens user_prompt" using assms by simp
  from truncate_defined [OF this] show ?thesis
    using True by (simp add: final_check_def)
next
  case False
  thus ?thesis by (simp add: final_check_def)
qed

lemma summary_text_shown_defined:
  assumes "0 \<le> per_source"
  shows "\<exists>t. summary_text_shown e per_source source = Some t"
proof (cases "estimate_tokens (s_summary source) > per_source")
  case True
  hence "0 < estimate_tokens (s_summary source)" using assms by simp
  from truncate_defined [OF this] show ?thesis
    using True by (simp add: summary_text_shown_def)
next
  case False
  thus ?thesis by (simp add: summary_text_shown_def Let_def)
qed

lemma summary_blocks_defined:
  assumes "0 \<le> per_source"
  shows "\<exists>b. summary_blocks e per_source idx summaries = Some b"
proof (induction summaries arbitrary: idx)
  case Nil
  show ?case by simp
next
  case (Cons source rest)
  obtain t where "summary_text_shown e per_source source = Some t"
    using summary_text_shown_defined [OF assms] by blast
  moreover obtain bs where "summary_blocks e per_source (Suc idx) rest = Some bs"
    using Cons.IH by blast
  ultimately show ?case by simp
qed

lemma estimate_summary_system_prompt: "estimate_tokens summary_system_prompt = 46"
  by (simp add: summary_system_prompt_def estimate_tokens_def)

lemma summary_prompt_defined: "\<exists>u. summary_prompt e query summaries = Some u"
proof -
  have "(0::int) \<le> 150000 div int (length summaries)"
    by (simp add: div_int_pos_iff)
  from summary_blocks_defined [OF this] obtain b where
    b: "summary_blocks e (150000 div int (length summaries)) 1 summaries = Some b"
    by blast
  have "estimate_tokens summary_system_prompt \<le> MAX_TOTAL_TOKENS"
    by (simp add: estimate_summary_system_prompt MAX_TOTAL_TOKENS_def)
  from final_check_defined [OF this] show ?thesis
    unfolding summary_prompt_def using b by (cases "summaries = []") simp_all
qed

text \<open>\<open>create_summary\<close> raises nothing, and its result is not a question.\<close>

lemma create_summary_defined:
  "\<exists>ok res. create_summary e query summaries mi = Some (ok, res)
      \<and> r_isQuestion res = False \<and> r_summaries res = summaries"
proof -
  obtain u where u: "summary_prompt e query summaries = Some u"
    using summary_prompt_defined by blast
  obtain ok answer t where
    "generate_llm_response e summary_system_prompt u mi = (ok, answer, t)"
    by (cases "generate_llm_response e summary_system_prompt u mi") auto
  thus ?thesis
    using u by (cases ok) (auto simp: create_summary_def)
qed

lemma finish_not_question:
  "\<exists>res. finish e clean False model_info history summaries = Success res
      \<and> r_isQuestion res = False"
proof (cases "usable_info model_info")
  case None
  thus ?thesis by (simp add: finish_def no_information_def)
next
  case (Some mi)
  obtain ok res where c: "create_summary e clean summaries mi = Some (ok, res)"
    and q: "r_isQuestion res = False"
    using create_summary_defined by blast
  show ?thesis
  proof (cases "summaries = []")
    case True
    thus ?thesis using Some by (simp add: finish_def no_information_def)
  next
    case False
    thus ?thesis using Some c q by (cases ok) (simp_all add: finish_def)
  qed
qed

lemma html_step_not_question: "html_step e clean False page_content model_info = Continue ()"
  by (simp add: html_step_def split: option.splits)

lemma direct_step_not_question:
  "direct_step e query clean False page_content model_info history summaries
     = Continue summaries"
  by (simp add: direct_step_def split: option.splits)

lemma process_query_not_question:
  assumes "question_flag query model_info is_question_arg = False"
  shows "process_query e query provided_urls page_content model_info is_question_arg history
     = finish e (clean_query e query) False model_info history
         (normal_summaries e query (clean_query e query) provided_urls page_content
            (additional_summaries e False model_info))"
  using assms
  by (simp add: process_query_def Let_def html_step_not_question direct_step_not_question)

text \<open>
  \<^bold>\<open>C6.\<close> For every query that starts with \<open>http://\<close> or \<open>https://\<close>, \<open>is_question\<close> is
  false, the question flag of the pipeline is false whatever the caller's \<open>is_question\<close>
  argument, the \<open>isQuestion\<close> and \<open>originalQuery\<close> entries of \<open>model_info\<close> and the wording
  after the address, and the pipeline returns a result whose \<open>isQuestion\<close> is false.
\<close>

theorem url_is_never_question:
  assumes "startswith query ''http://'' \<or> startswith query ''https://''"
  shows "is_question query = False
         \<and> question_flag query model_info is_question_arg = False
         \<and> (\<exists>res. process_query e query provided_urls page_content model_info
                      is_question_arg history = Success res
                \<and> r_isQuestion res = False)"
proof -
  have flag: "question_flag query model_info is_question_arg = False"
    using assms by (simp add: question_flag_def is_url_def)
  have "is_question query = False"
    using assms by (simp add: is_question_def)
  thus ?thesis
    using flag finish_not_question
    by (simp add: process_query_not_question [OF flag])
qed


theorem url_is_never_question_witness:
  "startswith ''https://example.com/page?q=what is solar power?'' ''https://''
   \<and> is_question ''what is solar power?''
   \<and> is_question ''https://example.com/page?q=what is solar power?'' = False
   \<and> process_query demo_env ''https://example.com/page?q=what is solar power?'' [] None
        (Some (demo_info \<lparr> mi_isQuestion := Some True \<rparr>)) (Some True) []
       = Success \<lparr> r_query = ''what is solar power?'', r_summaries = [],
                   r_consolidated_summary = Some ''No relevant information found.'',
                   r_generation_time = 0, r_isQuestion = False \<rparr>"
proof -
  have u: "startswith ''https://example.com/page?q=what is solar power?'' ''https://''"
    by (simp add: startswith_def)
  have q: "is_question ''what is solar power?''"
    by code_simp
  have r: "process_query demo_env ''https://example.com/page?q=what is solar power?'' [] None
        (Some (demo_info \<lparr> mi_isQuestion := Some True \<rparr>)) (Some True) []
       = Success \<lparr> r_query = ''what is solar power?'', r_summaries = [],
                   r_consolidated_summary = Some ''No relevant information found.'',
                   r_generation_time = 0, r_isQuestion = False \<rparr>"
    by code_simp
  have "is_question ''https://example.com/page?q=what is solar power?'' = False"
    using url_is_never_question [of "''https://example.com/page?q=what is solar power?''"] u
    by blast
  thus ?thesis using u q r by simp
qed

text \<open>
  \<^bold>\<open>C4.\<close> The request of the \<open>summarize\<close> action for a page of 248 characters, with a
  provider that raises after two and a half seconds. \<open>generate_llm_response\<close> measures
  the time up to the failure and \<open>create_summary\<close> returns it in its result; the pipeline
  drops that result and reports success with the message and a generation time of 0.
\<close>

theorem failure_reports_no_elapsed_time:
  "clean_query down_env ''Summarize: Solar'' = ''Summarize Solar''
   \<and> map_option (\<lambda>(ok, res). (ok, r_consolidated_summary res, r_generation_time res))
        (create_summary down_env ''Summarize Solar''
           (page_summary_items down_env ''Summarize: Solar'' solar_page) demo_info)
       = Some (False, Some ''Failed to generate summary.'', 5 / 2)
   \<and> process_query down_env ''Summarize: Solar'' [] (Some solar_page) (Some demo_info)
        (Some False) []
       = Success \<lparr> r_query = ''Summarize Solar'',
                   r_summaries = page_summary_items down_env ''Summarize: Solar'' solar_page,
                   r_consolidated_summary = Some ''Failed to generate a response.'',
                   r_generation_time = 0, r_isQuestion = False \<rparr>"
  by code_simp

subsection \<open>Evidence selection\<close>








end
